theory Spec2Isabelle
  imports Main "HOL-Library.Multiset" "HOL-Library.Sublist"
begin

section \<open>Python primitives used by the scheduler\<close>

text \<open>
  The scheduler (\<^verbatim>\<open>scheduler-backend/scheduler.py\<close>) reads a JSON record, so every
  dictionary field is optional: a field is modelled as an \<open>option\<close>, where \<open>None\<close>
  stands for a key that is absent (a JSON \<^verbatim>\<open>null\<close> is not represented). Exceptions are values
  of \<open>py_error\<close>;
  a computation that can raise returns \<open>py_error + 'a\<close> with \<open>Inl\<close> for the exception.
  Identifiers, day tokens and times are byte strings; integers are Python's unbounded
  integers (\<open>int\<close>).
\<close>

datatype py_error = ValueError | KeyError | IndexError

definition bind_e :: "py_error + 'a \<Rightarrow> ('a \<Rightarrow> py_error + 'b) \<Rightarrow> py_error + 'b" where
  "bind_e x f = (case x of Inl e \<Rightarrow> Inl e | Inr v \<Rightarrow> f v)"

text \<open>\<^verbatim>\<open>d[k]\<close>: a missing key raises \<^verbatim>\<open>KeyError\<close>.\<close>

definition getitem :: "'a option \<Rightarrow> py_error + 'a" where
  "getitem v = (case v of None \<Rightarrow> Inl KeyError | Some x \<Rightarrow> Inr x)"

text \<open>\<^verbatim>\<open>xs[i]\<close> on a list, for an index that is not negative.\<close>

definition list_at :: "'a list \<Rightarrow> nat \<Rightarrow> py_error + 'a" where
  "list_at xs i = (if i < length xs then Inr (xs ! i) else Inl IndexError)"

text \<open>\<^verbatim>\<open>d[i]\<close> on a dictionary whose keys are \<open>0, \<dots>, n - 1\<close>, kept as the list of its values.\<close>

definition dict_at :: "'a list \<Rightarrow> nat \<Rightarrow> py_error + 'a" where
  "dict_at xs i = (if i < length xs then Inr (xs ! i) else Inl KeyError)"

text \<open>A loop whose body can raise and whose results are collected in order.\<close>

fun for_each :: "'a list \<Rightarrow> ('a \<Rightarrow> py_error + 'b list) \<Rightarrow> py_error + 'b list" where
  "for_each [] f = Inr []"
| "for_each (x # xs) f = bind_e (f x) (\<lambda>ys. bind_e (for_each xs f) (\<lambda>zs. Inr (ys @ zs)))"

text \<open>\<^verbatim>\<open>d.get(k, default)\<close>.\<close>

definition get_or :: "'a option \<Rightarrow> 'a \<Rightarrow> 'a" where
  "get_or v d = (case v of None \<Rightarrow> d | Some x \<Rightarrow> x)"

subsection \<open>\<^verbatim>\<open>int(str)\<close>, \<^verbatim>\<open>str.split\<close> and number formatting\<close>

text \<open>
  \<^verbatim>\<open>int(s)\<close> in base ten on an ASCII string: surrounding whitespace (tab, line feed,
  vertical tab, form feed, carriage return, space) is stripped, one sign
  is allowed, then digits follow, with single underscores allowed between digits.
  Everything else raises \<^verbatim>\<open>ValueError\<close>. Bytes outside ASCII (Python also accepts the
  decimal digits of other scripts) are rejected by the model.
\<close>

definition is_space :: "char \<Rightarrow> bool" where
  "is_space c = (let n = (of_char c :: nat) in (9 \<le> n \<and> n \<le> 13) \<or> n = 32)"

definition is_digit :: "char \<Rightarrow> bool" where
  "is_digit c = (let n = (of_char c :: nat) in 48 \<le> n \<and> n \<le> 57)"

definition digit_val :: "char \<Rightarrow> nat" where
  "digit_val c = of_char c - 48"

definition digit_char :: "nat \<Rightarrow> char" where
  "digit_char n = char_of (48 + n)"

definition strip :: "string \<Rightarrow> string" where
  "strip s = dropWhile is_space (rev (dropWhile is_space (rev s)))"

fun digits_val :: "string \<Rightarrow> nat \<Rightarrow> nat option" where
  "digits_val [] acc = Some acc"
| "digits_val (c # cs) acc =
     (if is_digit c then digits_val cs (10 * acc + digit_val c)
      else if c = CHR ''_'' then
        (case cs of [] \<Rightarrow> None | d # ds \<Rightarrow> if is_digit d then digits_val cs acc else None)
      else None)"

definition int_body :: "string \<Rightarrow> nat option" where
  "int_body s = (case s of [] \<Rightarrow> None | c # cs \<Rightarrow> if is_digit c then digits_val s 0 else None)"

definition py_int :: "string \<Rightarrow> py_error + int" where
  "py_int s =
     (let t = strip s;
          r = (case t of
                 [] \<Rightarrow> None
               | c # cs \<Rightarrow>
                   if c = CHR ''-'' then map_option (\<lambda>n. - int n) (int_body cs)
                   else if c = CHR ''+'' then map_option int (int_body cs)
                   else map_option int (int_body t))
      in case r of None \<Rightarrow> Inl ValueError | Some v \<Rightarrow> Inr v)"

text \<open>\<^verbatim>\<open>s.split(sep)\<close> for a one-character separator.\<close>

fun split_on :: "char \<Rightarrow> string \<Rightarrow> string list" where
  "split_on sep [] = [[]]"
| "split_on sep (c # cs) =
     (if c = sep then [] # split_on sep cs
      else (case split_on sep cs of [] \<Rightarrow> [[c]] | p # ps \<Rightarrow> (c # p) # ps))"

text \<open>\<^verbatim>\<open>str(n)\<close> for a natural number, and the format \<^verbatim>\<open>{i:02d}\<close> for an integer.\<close>

fun str_nat :: "nat \<Rightarrow> string" where
  "str_nat n = (if n < 10 then [digit_char n] else str_nat (n div 10) @ [digit_char (n mod 10)])"

declare str_nat.simps [simp del]

definition fmt02d :: "int \<Rightarrow> string" where
  "fmt02d i =
     (if i < 0 then CHR ''-'' # str_nat (nat (- i))
      else if i < 10 then CHR ''0'' # str_nat (nat i)
      else str_nat (nat i))"

subsection \<open>Times\<close>

text \<open>
  \<^verbatim>\<open>time_to_minutes\<close> and \<^verbatim>\<open>minutes_to_time\<close>, the local helpers of
  \<^verbatim>\<open>_generate_time_slots\<close> (the same \<^verbatim>\<open>time_to_minutes\<close> is repeated in
  \<^verbatim>\<open>_add_break_constraints\<close> and \<^verbatim>\<open>_add_free_period_constraints\<close>). Unpacking
  \<^verbatim>\<open>hours, minutes = map(int, s.split(':'))\<close> raises \<^verbatim>\<open>ValueError\<close> unless there are
  exactly two parts and both are integers.
\<close>

definition time_to_minutes :: "string \<Rightarrow> py_error + int" where
  "time_to_minutes time_str =
     (case split_on CHR '':'' time_str of
        [a, b] \<Rightarrow> bind_e (py_int a) (\<lambda>hours. bind_e (py_int b) (\<lambda>minutes.
                    Inr (hours * 60 + minutes)))
      | _ \<Rightarrow> Inl ValueError)"

definition minutes_to_time :: "int \<Rightarrow> string" where
  "minutes_to_time minutes = fmt02d (minutes div 60) @ '':'' @ fmt02d (minutes mod 60)"

section \<open>The input record\<close>

text \<open>
  The JSON input: \<^verbatim>\<open>school_settings\<close>, \<^verbatim>\<open>teachers\<close>, \<^verbatim>\<open>classes\<close>, \<^verbatim>\<open>subjects\<close>,
  \<^verbatim>\<open>rooms\<close>. Only the fields the modelled functions read are kept.
\<close>

record free_period =
  fp_name :: "string option"
  fp_startTime :: "string option"
  fp_duration :: "int option"
  fp_days :: "string list option"
  fp_forClasses :: "string list option"

record school_settings =
  startTime :: "string option"
  endTime :: "string option"
  lessonDuration :: "int option"
  breakDuration :: "int option"
  hasBreakfastBreak :: "bool option"
  breakfastBreakStartTime :: "string option"
  breakfastBreakDuration :: "int option"
  lunchBreakDuration :: "int option"
  lunchBreakStartTime :: "string option"
  lessonsPerDay :: "int option"
  daysPerWeek :: "int option"
  workingDays :: "string list option"
  useRoomConstraints :: "bool option"
  maxSubjectsPerDay :: "int option"
  freePeriods :: "free_period list option"

record teacher =
  t_id :: "string option"
  t_name :: "string option"
  t_subjects :: "string list option"

record cls =
  c_id :: "string option"
  c_name :: "string option"
  requiredSubjects :: "string list option"

record subject =
  s_id :: "string option"
  s_name :: "string option"
  hoursPerWeek :: "int option"

record room =
  r_id :: "string option"
  r_name :: "string option"

record input_data =
  d_school_settings :: "school_settings option"
  d_teachers :: "teacher list option"
  d_classes :: "cls list option"
  d_subjects :: "subject list option"
  d_rooms :: "room list option"

text \<open>The empty dictionary \<^verbatim>\<open>{}\<close> that \<^verbatim>\<open>data.get('school_settings', {})\<close> defaults to.\<close>

definition empty_settings :: school_settings where
  "empty_settings =
     \<lparr>startTime = None, endTime = None, lessonDuration = None, breakDuration = None,
      hasBreakfastBreak = None, breakfastBreakStartTime = None,
      breakfastBreakDuration = None, lunchBreakDuration = None,
      lunchBreakStartTime = None, lessonsPerDay = None, daysPerWeek = None,
      workingDays = None, useRoomConstraints = None, maxSubjectsPerDay = None,
      freePeriods = None\<rparr>"

section \<open>Time grid builder: \<^verbatim>\<open>_generate_time_slots\<close>\<close>

text \<open>
  The values the \<^verbatim>\<open>while\<close> loop reads, all in minutes. When the breakfast break is
  disabled the source sets both breakfast bounds to \<open>-1\<close>.
\<close>

record grid =
  lesson_duration :: int
  break_duration :: int
  end_minutes :: int
  has_breakfast_break :: bool
  breakfast_start_minutes :: int
  breakfast_end_minutes :: int
  lunch_start_minutes :: int
  lunch_end_minutes :: int

text \<open>
  The statements of the \<^verbatim>\<open>try\<close> block before the loop: nine dictionary reads, then the
  parses of the start, the end, the breakfast start (only when the breakfast break is
  enabled) and the lunch start. The result is the loop's parameters and the first cursor.
\<close>

definition grid_setup :: "school_settings \<Rightarrow> py_error + (grid \<times> int)" where
  "grid_setup st =
     bind_e (getitem (startTime st)) (\<lambda>start_time.
     bind_e (getitem (endTime st)) (\<lambda>end_time.
     bind_e (getitem (lessonDuration st)) (\<lambda>lesson_dur.
     bind_e (getitem (breakDuration st)) (\<lambda>break_dur.
     bind_e (getitem (hasBreakfastBreak st)) (\<lambda>has_bb.
     bind_e (getitem (breakfastBreakStartTime st)) (\<lambda>bb_start.
     bind_e (getitem (breakfastBreakDuration st)) (\<lambda>bb_dur.
     bind_e (getitem (lunchBreakStartTime st)) (\<lambda>lunch_start.
     bind_e (getitem (lunchBreakDuration st)) (\<lambda>lunch_dur.
     bind_e (time_to_minutes start_time) (\<lambda>start_min.
     bind_e (time_to_minutes end_time) (\<lambda>end_min.
     bind_e (if has_bb
             then bind_e (time_to_minutes bb_start) (\<lambda>b. Inr (b, b + bb_dur))
             else Inr (- 1, - 1)) (\<lambda>(bs, be).
     bind_e (time_to_minutes lunch_start) (\<lambda>ls.
       Inr (\<lparr>lesson_duration = lesson_dur, break_duration = break_dur,
             end_minutes = end_min, has_breakfast_break = has_bb,
             breakfast_start_minutes = bs, breakfast_end_minutes = be,
             lunch_start_minutes = ls, lunch_end_minutes = ls + lunch_dur\<rparr>,
            start_min))))))))))))))"

text \<open>
  The \<^verbatim>\<open>while\<close> loop. It need not terminate (a lesson and a break of total length zero
  or less never advance the cursor), so it is a partial function: \<open>None\<close> is a loop that
  runs forever.
\<close>

partial_function (option) time_slots_loop ::
  "grid \<Rightarrow> int \<Rightarrow> (string \<times> string) list \<Rightarrow> (string \<times> string) list option" where
  "time_slots_loop g current_minutes time_slots =
     (if current_minutes + lesson_duration g \<le> end_minutes g then
        (if has_breakfast_break g \<and> current_minutes < breakfast_end_minutes g
              \<and> current_minutes + lesson_duration g > breakfast_start_minutes g
         then time_slots_loop g (breakfast_end_minutes g) time_slots
         else if current_minutes < lunch_end_minutes g
              \<and> current_minutes + lesson_duration g > lunch_start_minutes g
         then time_slots_loop g (lunch_end_minutes g) time_slots
         else time_slots_loop g (current_minutes + (lesson_duration g + break_duration g))
                (time_slots @ [(minutes_to_time current_minutes,
                                minutes_to_time (current_minutes + lesson_duration g))]))
      else Some time_slots)"

declare time_slots_loop.simps [code]

definition default_time_slots :: "(string \<times> string) list" where
  "default_time_slots =
     [(''08:00'', ''09:00''), (''09:15'', ''10:15''), (''10:30'', ''11:30''),
      (''11:45'', ''12:45''), (''13:30'', ''14:30''), (''14:45'', ''15:45'')]"

text \<open>
  \<^verbatim>\<open>_generate_time_slots\<close>: any exception of the \<^verbatim>\<open>try\<close> block is caught and
  answered with the six default slots. Only the statements before the loop can raise.
\<close>

definition generate_time_slots :: "school_settings \<Rightarrow> (string \<times> string) list option" where
  "generate_time_slots st =
     (case grid_setup st of
        Inl e \<Rightarrow> Some default_time_slots
      | Inr (g, start_minutes) \<Rightarrow> time_slots_loop g start_minutes [])"

section \<open>The scheduler object: \<^verbatim>\<open>TimetableScheduler.__init__\<close>\<close>

text \<open>
  The fields of \<^verbatim>\<open>self\<close> that the modelled methods read. The dictionaries
  \<^verbatim>\<open>teacher_ids\<close>, \<^verbatim>\<open>class_ids\<close>, \<^verbatim>\<open>subject_ids\<close> and \<^verbatim>\<open>room_ids\<close> map the indices
  \<open>0, 1, \<dots>\<close> to identifiers, so each is the list of identifiers in input order. The
  dictionaries \<^verbatim>\<open>teacher_indices\<close>, \<dots> map an identifier to its index; when an identifier
  occurs twice the dictionary comprehension keeps the last index.
\<close>

record scheduler =
  sch_settings :: school_settings
  teachers :: "teacher list"
  classes :: "cls list"
  subjects :: "subject list"
  rooms :: "room list"
  use_room_constraints :: bool
  max_subjects_per_day :: int
  free_periods :: "free_period list"
  days :: "string list"
  time_slots :: "(string \<times> string) list"
  teacher_ids :: "string list"
  class_ids :: "string list"
  subject_ids :: "string list"
  room_ids :: "string list"

text \<open>\<^verbatim>\<open>{x['id']: i for i, x in enumerate(xs)}\<close> as a lookup function.\<close>

definition index_dict :: "string list \<Rightarrow> string \<Rightarrow> nat option" where
  "index_dict ids = map_of (rev (zip ids [0 ..< length ids]))"

definition subject_indices :: "scheduler \<Rightarrow> string \<Rightarrow> nat option" where
  "subject_indices sch = index_dict (subject_ids sch)"

definition day_indices :: "scheduler \<Rightarrow> string \<Rightarrow> nat option" where
  "day_indices sch = index_dict (days sch)"

text \<open>
  The settings after the constructor has stored \<^verbatim>\<open>maxSubjectsPerDay\<close>
  (\<^verbatim>\<open>get('maxSubjectsPerDay', get('lessonsPerDay', 6))\<close>).
\<close>

definition init_settings :: "input_data \<Rightarrow> school_settings" where
  "init_settings data =
     (let st = get_or (d_school_settings data) empty_settings
      in st\<lparr>maxSubjectsPerDay :=
              Some (get_or (maxSubjectsPerDay st) (get_or (lessonsPerDay st) 6))\<rparr>)"

text \<open>The required settings that are absent, in the order of \<^verbatim>\<open>required_settings\<close>.\<close>

definition missing_settings :: "school_settings \<Rightarrow> string list" where
  "missing_settings st =
     (if startTime st = None then [''startTime''] else []) @
     (if endTime st = None then [''endTime''] else []) @
     (if lessonDuration st = None then [''lessonDuration''] else []) @
     (if breakDuration st = None then [''breakDuration''] else []) @
     (if hasBreakfastBreak st = None then [''hasBreakfastBreak''] else []) @
     (if breakfastBreakStartTime st = None then [''breakfastBreakStartTime''] else []) @
     (if breakfastBreakDuration st = None then [''breakfastBreakDuration''] else []) @
     (if lunchBreakDuration st = None then [''lunchBreakDuration''] else []) @
     (if lunchBreakStartTime st = None then [''lunchBreakStartTime''] else []) @
     (if lessonsPerDay st = None then [''lessonsPerDay''] else []) @
     (if daysPerWeek st = None then [''daysPerWeek''] else []) @
     (if workingDays st = None then [''workingDays''] else []) @
     (if useRoomConstraints st = None then [''useRoomConstraints''] else [])"

text \<open>\<^verbatim>\<open>[x['id'] for x in xs]\<close>: the first element without an \<^verbatim>\<open>id\<close> raises \<^verbatim>\<open>KeyError\<close>.\<close>

fun all_ids :: "string option list \<Rightarrow> py_error + string list" where
  "all_ids [] = Inr []"
| "all_ids (x # xs) =
     bind_e (getitem x) (\<lambda>i. bind_e (all_ids xs) (\<lambda>is. Inr (i # is)))"

text \<open>
  The constructor from the point where the time slots are known: it reads the four
  settings it keeps and builds the index dictionaries.
\<close>

definition init_with_slots ::
  "input_data \<Rightarrow> school_settings \<Rightarrow> (string \<times> string) list \<Rightarrow> py_error + scheduler" where
  "init_with_slots data st slots =
     bind_e (getitem (useRoomConstraints st)) (\<lambda>use_rooms.
     bind_e (getitem (maxSubjectsPerDay st)) (\<lambda>max_subjects.
     bind_e (getitem (workingDays st)) (\<lambda>working_days.
     (let ts = get_or (d_teachers data) [];
          cs = get_or (d_classes data) [];
          ss = get_or (d_subjects data) [];
          rs = get_or (d_rooms data) []
      in bind_e (all_ids (map t_id ts)) (\<lambda>tids.
         bind_e (all_ids (map c_id cs)) (\<lambda>cids.
         bind_e (all_ids (map s_id ss)) (\<lambda>sids.
         bind_e (all_ids (map r_id rs)) (\<lambda>rids.
           Inr \<lparr>sch_settings = st, teachers = ts, classes = cs, subjects = ss, rooms = rs,
                use_room_constraints = use_rooms, max_subjects_per_day = max_subjects,
                free_periods = get_or (freePeriods st) [], days = working_days,
                time_slots = slots, teacher_ids = tids, class_ids = cids,
                subject_ids = sids, room_ids = rids\<rparr>))))))))"

text \<open>
  \<^verbatim>\<open>TimetableScheduler(data)\<close>. The result is \<open>None\<close> when the slot loop runs forever,
  \<open>Some (Inl e)\<close> when the constructor raises and \<open>Some (Inr sch)\<close> otherwise.
\<close>

definition scheduler_init :: "input_data \<Rightarrow> (py_error + scheduler) option" where
  "scheduler_init data =
     (let st = init_settings data
      in if missing_settings st \<noteq> [] then Some (Inl ValueError)
         else (case generate_time_slots st of
                 None \<Rightarrow> None
               | Some slots \<Rightarrow> Some (init_with_slots data st slots)))"

section \<open>Variable factory: \<^verbatim>\<open>_create_variables\<close>\<close>

text \<open>
  A decision variable is named by its key \<open>(c, s, t, r, d, ts)\<close>. The dictionary
  \<^verbatim>\<open>assignment_vars\<close> is modelled by the list of its keys in insertion order; storing
  under a key that is present keeps the key's position.
\<close>

type_synonym var_key = "nat \<times> nat \<times> nat \<times> nat \<times> nat \<times> nat"

definition dict_keys :: "'a list \<Rightarrow> 'a list" where
  "dict_keys ks = rev (remdups (rev ks))"

definition valid_teachers :: "scheduler \<Rightarrow> string \<Rightarrow> nat list" where
  "valid_teachers sch subj =
     filter (\<lambda>t. subj \<in> set (get_or (t_subjects (teachers sch ! t)) []))
       [0 ..< length (teachers sch)]"

definition keys_for :: "scheduler \<Rightarrow> nat \<Rightarrow> string \<Rightarrow> var_key list" where
  "keys_for sch c subj =
     (case subject_indices sch subj of
        None \<Rightarrow> []
      | Some s \<Rightarrow>
          (let vt = valid_teachers sch subj in
           if vt = [] then []
           else if \<not> use_room_constraints sch then
             concat (map (\<lambda>d. concat (map (\<lambda>ts. map (\<lambda>t. (c, s, t, 0, d, ts)) vt)
               [0 ..< length (time_slots sch)])) [0 ..< length (days sch)])
           else
             concat (map (\<lambda>r. concat (map (\<lambda>d. concat (map (\<lambda>ts.
               map (\<lambda>t. (c, s, t, r, d, ts)) vt)
               [0 ..< length (time_slots sch)])) [0 ..< length (days sch)]))
               [0 ..< length (rooms sch)])))"

definition create_variables :: "scheduler \<Rightarrow> var_key list" where
  "create_variables sch =
     dict_keys (concat (map (\<lambda>c.
       concat (map (keys_for sch c) (get_or (requiredSubjects (classes sch ! c)) [])))
       [0 ..< length (classes sch)]))"

section \<open>The constraint model and the solver\<close>

text \<open>
  The solver is the external library: it is given the model and answers with a status
  and a value for every decision variable. The model keeps the decision variables and
  the constraints of the families written out below; a constraint \<open>SumEq ks v\<close> says
  that the variables \<open>ks\<close> sum to \<open>v\<close> (\<^verbatim>\<open>model.Add(sum(vars) == v)\<close>, and
  \<^verbatim>\<open>model.Add(var == 0)\<close> for a single variable).
\<close>

datatype status = UNKNOWN | MODEL_INVALID | FEASIBLE | INFEASIBLE | OPTIMAL

datatype constr = SumEq "var_key list" int

record cp_model =
  assignment_vars :: "var_key list"
  constraints :: "constr list"

fun holds :: "(var_key \<Rightarrow> int) \<Rightarrow> constr \<Rightarrow> bool" where
  "holds val (SumEq ks v) = (sum_list (map val ks) = v)"

text \<open>
  An assignment satisfies the model when every decision variable is boolean and every
  constraint holds.
\<close>

definition satisfies :: "cp_model \<Rightarrow> (var_key \<Rightarrow> int) \<Rightarrow> bool" where
  "satisfies m val =
     (list_all (\<lambda>k. val k = 0 \<or> val k = 1) (assignment_vars m) \<and>
      list_all (holds val) (constraints m))"

text \<open>
  The keys \<open>(c, s, t, r, d, ts)\<close> of one class and subject that are decision variables,
  in the order of the loops \<^verbatim>\<open>for t: for r: for d: for ts\<close>.
\<close>

definition pair_keys :: "scheduler \<Rightarrow> var_key list \<Rightarrow> nat \<Rightarrow> nat \<Rightarrow> var_key list" where
  "pair_keys sch vars c s =
     filter (\<lambda>k. k \<in> set vars)
       (map (\<lambda>(t, r, d, ts). (c, s, t, r, d, ts))
          (List.product [0 ..< length (teachers sch)]
            (List.product [0 ..< length (rooms sch)]
              (List.product [0 ..< length (days sch)] [0 ..< length (time_slots sch)]))))"

text \<open>\<^verbatim>\<open>_add_subject_hours_constraint\<close>.\<close>

definition add_subject_hours_constraint :: "scheduler \<Rightarrow> var_key list \<Rightarrow> constr list" where
  "add_subject_hours_constraint sch vars =
     concat (map (\<lambda>c. concat (map (\<lambda>subj.
       (case subject_indices sch subj of
          None \<Rightarrow> []
        | Some s \<Rightarrow>
            (let hours_per_week = get_or (hoursPerWeek (subjects sch ! s)) 0 in
             if hours_per_week \<le> 0 then []
             else (let subject_hours = pair_keys sch vars c s in
                   if subject_hours = [] then []
                   else [SumEq subject_hours hours_per_week]))))
       (get_or (requiredSubjects (classes sch ! c)) [])))
       [0 ..< length (classes sch)])"

text \<open>
  The block ``Strict enforcement of hours per week'' of
  \<^verbatim>\<open>_add_teacher_consistency_constraint\<close>: the same sum, required for every class and
  subject that has a teacher, whatever the sign of the hours. (The teacher-pick
  booleans of that method constrain auxiliary variables and are not part of the
  model here.)
\<close>

definition add_teacher_consistency_hours :: "scheduler \<Rightarrow> var_key list \<Rightarrow> constr list" where
  "add_teacher_consistency_hours sch vars =
     concat (map (\<lambda>c. concat (map (\<lambda>subj.
       (case subject_indices sch subj of
          None \<Rightarrow> []
        | Some s \<Rightarrow>
            if valid_teachers sch subj = [] then []
            else (let hours_per_week = get_or (hoursPerWeek (subjects sch ! s)) 0;
                      total_hours_vars = pair_keys sch vars c s in
                  if total_hours_vars = [] then []
                  else [SumEq total_hours_vars hours_per_week])))
       (get_or (requiredSubjects (classes sch ! c)) [])))
       [0 ..< length (classes sch)])"

text \<open>
  The decision variables of one day and slot, in the order
  \<^verbatim>\<open>for c: for s: for t: for r\<close>, optionally for one class only.
\<close>

definition slot_keys :: "scheduler \<Rightarrow> var_key list \<Rightarrow> nat list \<Rightarrow> nat \<Rightarrow> nat \<Rightarrow> var_key list" where
  "slot_keys sch vars cs d ts =
     filter (\<lambda>k. k \<in> set vars)
       (map (\<lambda>(c, s, t, r). (c, s, t, r, d, ts))
          (List.product cs
            (List.product [0 ..< length (subjects sch)]
              (List.product [0 ..< length (teachers sch)] [0 ..< length (rooms sch)]))))"

text \<open>
  \<^verbatim>\<open>_add_break_constraints\<close>. Both break starts are parsed, the breakfast start also
  when the breakfast break is disabled; then every slot of every day is parsed again
  and each variable of a slot that meets a break is forced to zero.
\<close>

definition add_break_constraints :: "scheduler \<Rightarrow> var_key list \<Rightarrow> py_error + constr list" where
  "add_break_constraints sch vars =
     bind_e (getitem (hasBreakfastBreak (sch_settings sch))) (\<lambda>has_bb.
     bind_e (getitem (breakfastBreakStartTime (sch_settings sch))) (\<lambda>bb_start.
     bind_e (getitem (breakfastBreakDuration (sch_settings sch))) (\<lambda>bb_dur.
     bind_e (getitem (lunchBreakStartTime (sch_settings sch))) (\<lambda>l_start.
     bind_e (getitem (lunchBreakDuration (sch_settings sch))) (\<lambda>l_dur.
     bind_e (time_to_minutes bb_start) (\<lambda>breakfast_start.
     bind_e (time_to_minutes l_start) (\<lambda>lunch_start.
       for_each [0 ..< length (days sch)] (\<lambda>d.
         for_each [0 ..< length (time_slots sch)] (\<lambda>ts.
           bind_e (time_to_minutes (fst (time_slots sch ! ts))) (\<lambda>slot_start.
           bind_e (time_to_minutes (snd (time_slots sch ! ts))) (\<lambda>slot_end.
             Inr ((if has_bb \<and> slot_start < breakfast_start + bb_dur \<and> slot_end > breakfast_start
                   then map (\<lambda>k. SumEq [k] 0)
                          (slot_keys sch vars [0 ..< length (classes sch)] d ts)
                   else []) @
                  (if slot_start < lunch_start + l_dur \<and> slot_end > lunch_start
                   then map (\<lambda>k. SumEq [k] 0)
                          (slot_keys sch vars [0 ..< length (classes sch)] d ts)
                   else [])))))))))))))"

text \<open>
  \<^verbatim>\<open>_add_free_period_constraints\<close>. A period without a start time is skipped; the
  start of any other period is parsed, and so is every slot of every day the period
  names.
\<close>

definition free_period_constraints ::
  "scheduler \<Rightarrow> var_key list \<Rightarrow> free_period \<Rightarrow> py_error + constr list" where
  "free_period_constraints sch vars period =
     (let period_days = get_or (fp_days period) [];
          period_duration = get_or (fp_duration period) 60;
          affected_classes = get_or (fp_forClasses period) []
      in case fp_startTime period of
           None \<Rightarrow> Inr []
         | Some period_start \<Rightarrow>
             if period_start = [] then Inr []
             else
               bind_e (time_to_minutes period_start) (\<lambda>period_start_minutes.
                 for_each [0 ..< length (days sch)] (\<lambda>d.
                   if days sch ! d \<in> set period_days \<or> ''all'' \<in> set period_days then
                     for_each [0 ..< length (time_slots sch)] (\<lambda>ts.
                       bind_e (time_to_minutes (fst (time_slots sch ! ts))) (\<lambda>slot_start.
                       bind_e (time_to_minutes (snd (time_slots sch ! ts))) (\<lambda>slot_end.
                         Inr (if slot_start < period_start_minutes + period_duration
                                 \<and> slot_end > period_start_minutes
                              then map (\<lambda>k. SumEq [k] 0)
                                     (slot_keys sch vars
                                        (filter (\<lambda>c. ''all'' \<in> set affected_classes \<or>
                                            (case c_id (classes sch ! c) of
                                               None \<Rightarrow> False
                                             | Some class_id \<Rightarrow> class_id \<in> set affected_classes))
                                           [0 ..< length (classes sch)])
                                        d ts)
                              else []))))
                   else Inr [])))"

definition add_free_period_constraints ::
  "scheduler \<Rightarrow> var_key list \<Rightarrow> py_error + constr list" where
  "add_free_period_constraints sch vars =
     for_each (free_periods sch) (free_period_constraints sch vars)"

text \<open>
  The model that \<^verbatim>\<open>solve\<close> hands to the solver: \<^verbatim>\<open>_create_variables\<close>, then
  \<^verbatim>\<open>_add_all_constraints\<close> and \<^verbatim>\<open>_add_objective\<close>. Of the constraint families, the two
  that fix the weekly hours and the two that parse times (and so can raise) are
  written out. The other families (teacher, class and room exclusion, daily lessons,
  balanced distribution, availability, no-repeat) and the objective add further
  restrictions on the same variables and on auxiliary booleans and never raise; they
  are left out of \<open>constraints\<close>, so \<open>satisfies\<close> asks less of an assignment than the
  solver does.
\<close>

definition build_model :: "scheduler \<Rightarrow> py_error + cp_model" where
  "build_model sch =
     (let vars = create_variables sch in
      bind_e (add_break_constraints sch vars) (\<lambda>break_cs.
      bind_e (add_free_period_constraints sch vars) (\<lambda>free_cs.
        Inr \<lparr>assignment_vars = vars,
             constraints = add_subject_hours_constraint sch vars @
                           add_teacher_consistency_hours sch vars @
                           break_cs @ free_cs\<rparr>)))"

text \<open>
  What a run takes from outside the program: the solver's answer to a model, the
  stream of draws of numpy's global random generator, and the strings of
  \<^verbatim>\<open>uuid.uuid4()\<close> (one for the schedule id, one per entry, one for an error schedule).
\<close>

record env =
  solver :: "cp_model \<Rightarrow> status \<times> (var_key \<Rightarrow> int)"
  random :: "nat \<Rightarrow> nat"
  schedule_uuid :: string
  entry_uuid :: "nat \<Rightarrow> string"
  error_uuid :: string

section \<open>Schedules\<close>

record entry =
  e_id :: string
  e_day :: string
  e_startTime :: string
  e_endTime :: string
  classId :: "string option"
  subjectId :: string
  teacherId :: "string option"
  roomId :: "string option"
  roomName :: "string option"

record schedule =
  scheduleId :: string
  entries :: "entry list"

section \<open>Fallback generator: \<^verbatim>\<open>_generate_mock_schedule\<close>\<close>

text \<open>
  An insertion-ordered dictionary as an association list: storing under a key that is
  present replaces the value and keeps the position.
\<close>

fun dict_set :: "('k \<times> 'v) list \<Rightarrow> 'k \<Rightarrow> 'v \<Rightarrow> ('k \<times> 'v) list" where
  "dict_set [] k v = [(k, v)]"
| "dict_set ((k', v') # xs) k v =
     (if k' = k then (k, v) # xs else (k', v') # dict_set xs k v)"

text \<open>
  \<^verbatim>\<open>np.random.choice(xs)\<close> on a non-empty list takes one draw, and
  \<^verbatim>\<open>np.random.shuffle(xs)\<close> is the pass numpy makes over the list: for \<open>i\<close> from the last
  position down to \<open>1\<close>, the element at \<open>i\<close> is swapped with the one at a drawn position
  \<open>j \<le> i\<close>. The number \<open>k\<close> counts the draws made so far.
\<close>

definition choice :: "(nat \<Rightarrow> nat) \<Rightarrow> nat \<Rightarrow> 'a list \<Rightarrow> 'a" where
  "choice rnd k xs = xs ! (rnd k mod length xs)"

primrec shuffle_from :: "(nat \<Rightarrow> nat) \<Rightarrow> nat \<Rightarrow> 'a list \<Rightarrow> nat \<Rightarrow> 'a list \<times> nat" where
  "shuffle_from rnd 0 xs k = (xs, k)"
| "shuffle_from rnd (Suc i) xs k =
     (let j = rnd k mod (Suc (Suc i))
      in shuffle_from rnd i (xs[Suc i := xs ! j, j := xs ! Suc i]) (Suc k))"

definition shuffle :: "(nat \<Rightarrow> nat) \<Rightarrow> 'a list \<Rightarrow> nat \<Rightarrow> 'a list \<times> nat" where
  "shuffle rnd xs k = shuffle_from rnd (length xs - 1) xs k"

text \<open>
  The first loop: one teacher is drawn for every class and required subject that is in
  the catalogue and has a teacher.
\<close>

type_synonym teacher_assignment = "((string option \<times> string) \<times> teacher) list"

fun assign_subjects ::
  "scheduler \<Rightarrow> env \<Rightarrow> string option \<Rightarrow> string list \<Rightarrow> teacher_assignment \<times> nat
     \<Rightarrow> teacher_assignment \<times> nat" where
  "assign_subjects sch env class_id [] st = st"
| "assign_subjects sch env class_id (subject_id # rest) (assigned_teachers, k) =
     (if subject_indices sch subject_id = None
      then assign_subjects sch env class_id rest (assigned_teachers, k)
      else (let vt = filter (\<lambda>t. subject_id \<in> set (get_or (t_subjects t) [])) (teachers sch) in
            if vt = [] then assign_subjects sch env class_id rest (assigned_teachers, k)
            else assign_subjects sch env class_id rest
                   (dict_set assigned_teachers (class_id, subject_id) (choice (random env) k vt),
                    Suc k)))"

fun assign_teachers ::
  "scheduler \<Rightarrow> env \<Rightarrow> cls list \<Rightarrow> teacher_assignment \<times> nat \<Rightarrow> teacher_assignment \<times> nat" where
  "assign_teachers sch env [] st = st"
| "assign_teachers sch env (class_info # rest) st =
     assign_teachers sch env rest
       (assign_subjects sch env (c_id class_info)
          (get_or (requiredSubjects class_info) []) st)"

fun first_index :: "('a \<Rightarrow> bool) \<Rightarrow> 'a list \<Rightarrow> nat option" where
  "first_index P [] = None"
| "first_index P (x # xs) = (if P x then Some 0 else map_option Suc (first_index P xs))"

text \<open>
  The tests that the inner loop makes against one entry that is already in the
  schedule: the teacher is busy in the slot, the class is busy in the slot, the
  subject is already on that day for the class, or the subject is in the slot before
  or after.
\<close>

definition slot_conflict ::
  "scheduler \<Rightarrow> string \<Rightarrow> string \<times> string \<Rightarrow> string option \<Rightarrow> string \<Rightarrow> teacher \<Rightarrow> entry
     \<Rightarrow> bool" where
  "slot_conflict sch day time_slot class_id subject_id teacher existing_entry =
     ((e_day existing_entry = day \<and> e_startTime existing_entry = fst time_slot \<and>
       teacherId existing_entry = t_id teacher) \<or>
      (e_day existing_entry = day \<and> e_startTime existing_entry = fst time_slot \<and>
       classId existing_entry = class_id) \<or>
      (e_day existing_entry = day \<and> classId existing_entry = class_id \<and>
       subjectId existing_entry = subject_id) \<or>
      (case first_index (\<lambda>ts. fst ts = fst time_slot) (time_slots sch) of
         None \<Rightarrow> False
       | Some time_slot_idx \<Rightarrow>
           (0 < time_slot_idx \<and> e_day existing_entry = day \<and>
            e_startTime existing_entry = fst (time_slots sch ! (time_slot_idx - 1)) \<and>
            classId existing_entry = class_id \<and> subjectId existing_entry = subject_id) \<or>
           (time_slot_idx + 1 < length (time_slots sch) \<and> e_day existing_entry = day \<and>
            e_startTime existing_entry = fst (time_slots sch ! (time_slot_idx + 1)) \<and>
            classId existing_entry = class_id \<and> subjectId existing_entry = subject_id)))"

text \<open>
  The loop over the shuffled slots for one class, subject and teacher. The state is the
  entries so far and the number of draws; the loop stops when no hours are left.
\<close>

fun assign_slots ::
  "scheduler \<Rightarrow> env \<Rightarrow> string option \<Rightarrow> string \<Rightarrow> teacher
     \<Rightarrow> (nat \<times> string \<times> string \<times> string) list \<Rightarrow> int \<Rightarrow> entry list \<times> nat
     \<Rightarrow> entry list \<times> nat" where
  "assign_slots sch env class_id subject_id teacher [] hours_to_assign st = st"
| "assign_slots sch env class_id subject_id teacher ((slot_idx, day, time_slot) # rest)
       hours_to_assign (es, k) =
     (if hours_to_assign \<le> 0 then (es, k)
      else if list_ex (slot_conflict sch day time_slot class_id subject_id teacher) es
      then assign_slots sch env class_id subject_id teacher rest hours_to_assign (es, k)
      else
        (let fallback_id = ''room-'' @ str_nat slot_idx;
             room_id = (if rooms sch = [] then Some fallback_id
                        else (case r_id (choice (random env) k (rooms sch)) of
                                None \<Rightarrow> Some fallback_id
                              | Some i \<Rightarrow> Some i));
             k' = (if rooms sch = [] then k else Suc k);
             new_entry = \<lparr>e_id = entry_uuid env (length es), e_day = day,
                          e_startTime = fst time_slot, e_endTime = snd time_slot,
                          classId = class_id, subjectId = subject_id,
                          teacherId = t_id teacher, roomId = room_id, roomName = None\<rparr>
         in assign_slots sch env class_id subject_id teacher rest (hours_to_assign - 1)
              (es @ [new_entry], k')))"

text \<open>The loop over the assigned teachers.\<close>

fun fill_schedule ::
  "scheduler \<Rightarrow> env \<Rightarrow> (nat \<times> string \<times> string \<times> string) list \<Rightarrow> teacher_assignment
     \<Rightarrow> entry list \<times> nat \<Rightarrow> entry list \<times> nat" where
  "fill_schedule sch env available_slots [] st = st"
| "fill_schedule sch env available_slots (((class_id, subject_id), teacher) # rest) st =
     (case List.find (\<lambda>s. s_id s = Some subject_id) (subjects sch) of
        None \<Rightarrow> fill_schedule sch env available_slots rest st
      | Some subject \<Rightarrow>
          (let hours_per_week = get_or (hoursPerWeek subject) 0 in
           if hours_per_week \<le> 0 then fill_schedule sch env available_slots rest st
           else (case List.find (\<lambda>c. c_id c = class_id) (classes sch) of
                   None \<Rightarrow> fill_schedule sch env available_slots rest st
                 | Some class_info \<Rightarrow>
                     fill_schedule sch env available_slots rest
                       (assign_slots sch env class_id subject_id teacher available_slots
                          hours_per_week st))))"

definition generate_mock_schedule :: "scheduler \<Rightarrow> env \<Rightarrow> schedule" where
  "generate_mock_schedule sch env =
     (let (assigned_teachers, k1) = assign_teachers sch env (classes sch) ([], 0);
          (available_slots, k2) = shuffle (random env) (List.product (days sch) (time_slots sch)) k1;
          (es, k3) = fill_schedule sch env (enumerate 0 available_slots) assigned_teachers ([], k2)
      in \<lparr>scheduleId = ''mock-schedule-'' @ take 8 (schedule_uuid env), entries = es\<rparr>)"

section \<open>Solution extractor: \<^verbatim>\<open>extract_solution\<close>\<close>

text \<open>
  \<^verbatim>\<open>next((cls["name"] for cls in self.classes if cls["id"] == class_id), default)\<close>: the
  first class with the identifier must have a name, or \<^verbatim>\<open>KeyError\<close> is raised.
\<close>

fun find_class_name :: "cls list \<Rightarrow> string \<Rightarrow> string \<Rightarrow> py_error + string" where
  "find_class_name [] class_id dflt = Inr dflt"
| "find_class_name (x # xs) class_id dflt =
     bind_e (getitem (c_id x)) (\<lambda>i.
       if i = class_id then getitem (c_name x) else find_class_name xs class_id dflt)"

text \<open>The entry for a decision variable whose value is one; \<open>n\<close> entries exist already.\<close>

definition make_entry :: "scheduler \<Rightarrow> env \<Rightarrow> var_key \<Rightarrow> nat \<Rightarrow> py_error + entry" where
  "make_entry sch env key n =
     (case key of (c, s, t, r, d, ts) \<Rightarrow>
        bind_e (dict_at (class_ids sch) c) (\<lambda>class_id.
        bind_e (dict_at (subject_ids sch) s) (\<lambda>subject_id.
        bind_e (dict_at (teacher_ids sch) t) (\<lambda>teacher_id.
        bind_e (dict_at (room_ids sch) r) (\<lambda>room_id.
        bind_e (list_at (days sch) d) (\<lambda>day.
        bind_e (list_at (time_slots sch) ts) (\<lambda>time_slot.
          if \<not> use_room_constraints sch then
            bind_e (find_class_name (classes sch) class_id (''Class '' @ str_nat c)) (\<lambda>class_name.
              Inr \<lparr>e_id = entry_uuid env n, e_day = day, e_startTime = fst time_slot,
                   e_endTime = snd time_slot, classId = Some class_id,
                   subjectId = subject_id, teacherId = Some teacher_id,
                   roomId = Some class_id, roomName = Some (''Room '' @ class_name)\<rparr>)
          else
            Inr \<lparr>e_id = entry_uuid env n, e_day = day, e_startTime = fst time_slot,
                 e_endTime = snd time_slot, classId = Some class_id,
                 subjectId = subject_id, teacherId = Some teacher_id,
                 roomId = Some room_id, roomName = None\<rparr>)))))))"

text \<open>The loop \<^verbatim>\<open>for key, var in self.assignment_vars.items()\<close>.\<close>

fun extract_entries ::
  "scheduler \<Rightarrow> env \<Rightarrow> (var_key \<Rightarrow> int) \<Rightarrow> var_key list \<Rightarrow> entry list \<Rightarrow> py_error + entry list"
  where
  "extract_entries sch env val [] es = Inr es"
| "extract_entries sch env val (key # keys) es =
     (if val key = 1
      then bind_e (make_entry sch env key (length es)) (\<lambda>e.
             extract_entries sch env val keys (es @ [e]))
      else extract_entries sch env val keys es)"

text \<open>
  \<^verbatim>\<open>extract_solution\<close>. The checks after the loop only write to the log. Without a
  solution the method itself falls back to the mock schedule.
\<close>

definition extract_solution ::
  "scheduler \<Rightarrow> env \<Rightarrow> cp_model \<Rightarrow> status \<Rightarrow> (var_key \<Rightarrow> int) \<Rightarrow> py_error + schedule" where
  "extract_solution sch env m st val =
     (if \<not> (st = OPTIMAL \<or> st = FEASIBLE) then Inr (generate_mock_schedule sch env)
      else bind_e (extract_entries sch env val (assignment_vars m) []) (\<lambda>es.
             Inr \<lparr>scheduleId = ''generated-schedule-'' @ take 8 (schedule_uuid env),
                  entries = es\<rparr>))"

section \<open>\<^verbatim>\<open>generate_schedule\<close>\<close>

text \<open>
  The body of the \<^verbatim>\<open>try\<close> block: construct the scheduler, build the model, ask the
  solver, then extract or fall back. \<open>None\<close> is a run that never returns (the slot loop
  of the constructor), \<open>Some (Inl e)\<close> a run that raises.
\<close>

definition run_scheduler :: "input_data \<Rightarrow> env \<Rightarrow> (py_error + schedule) option" where
  "run_scheduler data env =
     (case scheduler_init data of
        None \<Rightarrow> None
      | Some r \<Rightarrow>
          Some (bind_e r (\<lambda>sch.
                bind_e (build_model sch) (\<lambda>m.
                  (case solver env m of (st, val) \<Rightarrow>
                     if st = OPTIMAL \<or> st = FEASIBLE then extract_solution sch env m st val
                     else Inr (generate_mock_schedule sch env))))))"

definition error_schedule :: "env \<Rightarrow> schedule" where
  "error_schedule env =
     \<lparr>scheduleId = ''error-schedule-'' @ take 8 (error_uuid env), entries = []\<rparr>"

definition generate_schedule :: "input_data \<Rightarrow> env \<Rightarrow> schedule option" where
  "generate_schedule data env =
     map_option (\<lambda>r. case r of Inl e \<Rightarrow> error_schedule env | Inr s \<Rightarrow> s)
       (run_scheduler data env)"

section \<open>Input validator: \<^verbatim>\<open>validate_constraints\<close>\<close>

record validation =
  feasible :: bool
  issues :: "string list"

text \<open>
  \<^verbatim>\<open>not d.get(k)\<close> for a string or a list (absent or empty) and for a number (absent
  or zero).
\<close>

definition falsy :: "'a list option \<Rightarrow> bool" where
  "falsy v = (case v of None \<Rightarrow> True | Some xs \<Rightarrow> xs = [])"

definition falsy_int :: "int option \<Rightarrow> bool" where
  "falsy_int v = (case v of None \<Rightarrow> True | Some n \<Rightarrow> n = 0)"

text \<open>A name between single quotes, or \<^verbatim>\<open>at index i\<close> when there is no name.\<close>

definition quoted_name :: "string option \<Rightarrow> nat \<Rightarrow> string" where
  "quoted_name name i =
     [CHR 0x27] @ get_or name (''at index '' @ str_nat i) @ [CHR 0x27]"

definition free_period_issues :: "nat \<times> free_period \<Rightarrow> string list" where
  "free_period_issues ip =
     (case ip of (i, period) \<Rightarrow>
        (if falsy (fp_name period)
         then [''Free period at index '' @ str_nat i @ '' is missing a name.''] else []) @
        (if falsy (fp_startTime period)
         then [''Free period '' @ quoted_name (fp_name period) i @ '' is missing a start time.'']
         else []) @
        (if falsy (fp_days period)
         then [''Free period '' @ quoted_name (fp_name period) i @ '' has no assigned days.'']
         else []) @
        (if falsy (fp_forClasses period)
         then [''Free period '' @ quoted_name (fp_name period) i @ '' has no assigned classes.'']
         else []))"

text \<open>The \<^verbatim>\<open>try\<close> block that compares the start and the end of the school day.\<close>

definition time_order_issues :: "school_settings \<Rightarrow> string list" where
  "time_order_issues st =
     (case bind_e (time_to_minutes (get_or (startTime st) ''08:00'')) (\<lambda>s.
           bind_e (time_to_minutes (get_or (endTime st) ''15:00'')) (\<lambda>e. Inr (e \<le> s))) of
        Inl err \<Rightarrow> [''Invalid time format in school settings.'']
      | Inr not_after \<Rightarrow>
          if not_after then [''School end time must be after start time.''] else [])"

definition settings_issues :: "school_settings \<Rightarrow> string list" where
  "settings_issues st =
     (if st = empty_settings then []
      else
        (if falsy (startTime st) then [''School start time is missing.''] else []) @
        (if falsy (endTime st) then [''School end time is missing.''] else []) @
        (if falsy_int (lessonDuration st) then [''Lesson duration is missing.''] else []) @
        (case maxSubjectsPerDay st of
           None \<Rightarrow> []
         | Some max_subjects \<Rightarrow>
             if max_subjects < 0
             then [''Maximum subjects per day must be a positive integer.''] else []) @
        concat (map free_period_issues (enumerate 0 (get_or (freePeriods st) []))) @
        time_order_issues st)"

definition teacher_issues :: "nat \<times> teacher \<Rightarrow> string list" where
  "teacher_issues it =
     (case it of (i, teacher) \<Rightarrow>
        (if falsy (t_id teacher)
         then [''Teacher at index '' @ str_nat i @ '' is missing an ID.''] else []) @
        (if falsy (t_subjects teacher)
         then [''Teacher '' @ quoted_name (t_name teacher) i @ '' has no assigned subjects.'']
         else []))"

definition class_issues :: "nat \<times> cls \<Rightarrow> string list" where
  "class_issues ic =
     (case ic of (i, c) \<Rightarrow>
        (if falsy (c_id c)
         then [''Class at index '' @ str_nat i @ '' is missing an ID.''] else []) @
        (if falsy (requiredSubjects c)
         then [''Class '' @ quoted_name (c_name c) i @ '' has no required subjects.'']
         else []))"

definition subject_issues :: "nat \<times> subject \<Rightarrow> string list" where
  "subject_issues isub =
     (case isub of (i, subject) \<Rightarrow>
        (if falsy (s_id subject)
         then [''Subject at index '' @ str_nat i @ '' is missing an ID.''] else []) @
        (if falsy_int (hoursPerWeek subject)
         then [''Subject '' @ quoted_name (s_name subject) i @ '' has no specified hours per week.'']
         else []))"

text \<open>The set \<^verbatim>\<open>subject_ids\<close>: the identifiers of the subjects that have one.\<close>

definition known_subject_ids :: "subject list \<Rightarrow> string set" where
  "known_subject_ids ss = set (concat (map (\<lambda>s. if falsy (s_id s) then [] else [get_or (s_id s) []]) ss))"

definition class_reference_issues :: "string set \<Rightarrow> nat \<times> cls \<Rightarrow> string list" where
  "class_reference_issues ids ic =
     (case ic of (i, c) \<Rightarrow>
        concat (map (\<lambda>subj_id.
          if subj_id \<in> ids then []
          else [''Class '' @ quoted_name (c_name c) i @
                '' requires non-existent subject ID: '' @ subj_id])
          (get_or (requiredSubjects c) [])))"

definition teacher_reference_issues :: "string set \<Rightarrow> nat \<times> teacher \<Rightarrow> string list" where
  "teacher_reference_issues ids it =
     (case it of (i, teacher) \<Rightarrow>
        concat (map (\<lambda>subj_id.
          if subj_id \<in> ids then []
          else [''Teacher '' @ quoted_name (t_name teacher) i @
                '' is assigned non-existent subject ID: '' @ subj_id])
          (get_or (t_subjects teacher) [])))"

text \<open>The last check of the validator, on the numbers of rooms and classes.\<close>

definition room_count_issues :: "room list \<Rightarrow> cls list \<Rightarrow> string list" where
  "room_count_issues rs cs =
     (if length rs < length cs
      then [''Not enough rooms provided ('' @ str_nat (length rs) @
            '') for the number of classes ('' @ str_nat (length cs) @ '').'']
      else [])"

definition validate_issues :: "input_data \<Rightarrow> string list" where
  "validate_issues data =
     (let school = get_or (d_school_settings data) empty_settings;
          ts = get_or (d_teachers data) [];
          cs = get_or (d_classes data) [];
          ss = get_or (d_subjects data) [];
          rs = get_or (d_rooms data) []
      in
        (if school = empty_settings then [''School settings are missing.''] else []) @
        (if ts = [] then [''No teachers provided.''] else []) @
        (if cs = [] then [''No classes provided.''] else []) @
        (if ss = [] then [''No subjects provided.''] else []) @
        (if get_or (useRoomConstraints school) True \<and> rs = []
         then [''No rooms provided (required when room constraints are enabled).'']
         else []) @
        settings_issues school @
        concat (map teacher_issues (enumerate 0 ts)) @
        concat (map class_issues (enumerate 0 cs)) @
        concat (map subject_issues (enumerate 0 ss)) @
        concat (map (class_reference_issues (known_subject_ids ss)) (enumerate 0 cs)) @
        concat (map (teacher_reference_issues (known_subject_ids ss)) (enumerate 0 ts)) @
        room_count_issues rs cs)"

definition validate_constraints :: "input_data \<Rightarrow> validation" where
  "validate_constraints data =
     \<lparr>feasible = (validate_issues data = []), issues = validate_issues data\<rparr>"

section \<open>Predicates and sample inputs for the time grid\<close>

definition wf_hhmm :: "string \<Rightarrow> bool" where
  "wf_hhmm s =
     (case s of
        [h1, h2, c, m1, m2] \<Rightarrow>
          is_digit h1 \<and> is_digit h2 \<and> c = CHR '':'' \<and> is_digit m1 \<and> is_digit m2 \<and>
          10 * digit_val h1 + digit_val h2 < 24 \<and> 10 * digit_val m1 + digit_val m2 < 60
      | _ \<Rightarrow> False)"

definition minutes_of :: "string \<Rightarrow> int" where
  "minutes_of s = (case time_to_minutes s of Inl e \<Rightarrow> 0 | Inr v \<Rightarrow> v)"

definition slot_ok :: "grid \<Rightarrow> int \<Rightarrow> string \<times> string \<Rightarrow> bool" where
  "slot_ok g start_minutes slot =
     (case time_to_minutes (fst slot) of
        Inl e \<Rightarrow> False
      | Inr x \<Rightarrow>
          time_to_minutes (snd slot) = Inr (x + lesson_duration g) \<and>
          start_minutes \<le> x \<and> x + lesson_duration g \<le> end_minutes g \<and>
          {x ..< x + lesson_duration g} \<inter> {lunch_start_minutes g ..< lunch_end_minutes g} = {} \<and>
          (if has_breakfast_break g
           then {x ..< x + lesson_duration g} \<inter> {breakfast_start_minutes g ..< breakfast_end_minutes g} = {}
           else True))"

definition sample_settings :: school_settings where
  "sample_settings =
     \<lparr>startTime = Some ''08:00'', endTime = Some ''15:00'', lessonDuration = Some 60,
      breakDuration = Some 15, hasBreakfastBreak = Some True,
      breakfastBreakStartTime = Some ''10:00'', breakfastBreakDuration = Some 25,
      lunchBreakDuration = Some 45, lunchBreakStartTime = Some ''12:00'',
      lessonsPerDay = Some 6, daysPerWeek = Some 5,
      workingDays = Some [''MONDAY'', ''TUESDAY'', ''WEDNESDAY'', ''THURSDAY'', ''FRIDAY''],
      useRoomConstraints = Some True, maxSubjectsPerDay = Some 6, freePeriods = None\<rparr>"

definition sample_settings_no_breakfast :: school_settings where
  "sample_settings_no_breakfast = sample_settings\<lparr>hasBreakfastBreak := Some False\<rparr>"

section \<open>Sample inputs\<close>

text \<open>
  A school day from 08:00 to 10:00 with lessons of 60 minutes and no pause between
  them gives the two slots 08:00--09:00 and 09:00--10:00; the lunch break lies after
  the school day and there is no breakfast break.
\<close>

definition small_settings :: school_settings where
  "small_settings =
     \<lparr>startTime = Some ''08:00'', endTime = Some ''10:00'', lessonDuration = Some 60,
      breakDuration = Some 0, hasBreakfastBreak = Some False,
      breakfastBreakStartTime = Some ''10:00'', breakfastBreakDuration = Some 25,
      lunchBreakDuration = Some 45, lunchBreakStartTime = Some ''12:00'',
      lessonsPerDay = Some 2, daysPerWeek = Some 2,
      workingDays = Some [''MONDAY'', ''TUESDAY''],
      useRoomConstraints = Some False, maxSubjectsPerDay = None, freePeriods = None\<rparr>"

definition teacher1 :: teacher where
  "teacher1 = \<lparr>t_id = Some ''teacher-1'', t_name = Some ''Alice'', t_subjects = Some [''math'']\<rparr>"

definition class1 :: cls where
  "class1 = \<lparr>c_id = Some ''class-1'', c_name = Some ''Class 1'',
              requiredSubjects = Some [''math'']\<rparr>"

definition math_subject :: "int \<Rightarrow> subject" where
  "math_subject h = \<lparr>s_id = Some ''math'', s_name = Some ''Mathematics'', hoursPerWeek = Some h\<rparr>"

definition room1 :: room where
  "room1 = \<lparr>r_id = Some ''room-1'', r_name = Some ''Room 101''\<rparr>"

text \<open>One class, one teacher, two hours of mathematics a week, one room.\<close>

definition small_data :: input_data where
  "small_data =
     \<lparr>d_school_settings = Some small_settings, d_teachers = Some [teacher1],
      d_classes = Some [class1], d_subjects = Some [math_subject 2],
      d_rooms = Some [room1]\<rparr>"

text \<open>
  An environment whose solver finds nothing, and one whose solver answers \<open>OPTIMAL\<close>
  with the given variables set to one.
\<close>

definition failing_env :: "(nat \<Rightarrow> nat) \<Rightarrow> env" where
  "failing_env rnd =
     \<lparr>solver = (\<lambda>m. (INFEASIBLE, (\<lambda>k. 0))), random = rnd,
      schedule_uuid = ''1b9d6bcd-bbfd-4b2d-9b5d-ab8dfbbd4bed'',
      entry_uuid = (\<lambda>n. ''entry-'' @ str_nat n),
      error_uuid = ''9c5b94b1-35ad-49bb-b118-8e8fc24abf80''\<rparr>"

definition solving_env :: "var_key list \<Rightarrow> env" where
  "solving_env ones =
     \<lparr>solver = (\<lambda>m. (OPTIMAL, (\<lambda>k. if k \<in> set ones then 1 else 0))), random = (\<lambda>k. 0),
      schedule_uuid = ''1b9d6bcd-bbfd-4b2d-9b5d-ab8dfbbd4bed'',
      entry_uuid = (\<lambda>n. ''entry-'' @ str_nat n),
      error_uuid = ''9c5b94b1-35ad-49bb-b118-8e8fc24abf80''\<rparr>"

text \<open>The input of claim C7: room constraints are disabled and no room is given.\<close>

definition no_rooms_data :: input_data where
  "no_rooms_data = small_data\<lparr>d_rooms := Some []\<rparr>"

text \<open>
  Two classes, the second without a name. With room constraints disabled the
  extractor reads the name of an entry's class.
\<close>

definition class2_unnamed :: cls where
  "class2_unnamed = \<lparr>c_id = Some ''class-2'', c_name = None,
                      requiredSubjects = Some [''math'']\<rparr>"

definition unnamed_class_data :: input_data where
  "unnamed_class_data =
     small_data\<lparr>d_classes := Some [class1, class2_unnamed],
                 d_subjects := Some [math_subject 1],
                 d_rooms := Some [room1, room1]\<rparr>"

text \<open>The scheduler object and the model that \<open>small_data\<close> leads to.\<close>

definition small_scheduler :: scheduler where
  "small_scheduler =
     \<lparr>sch_settings = small_settings\<lparr>maxSubjectsPerDay := Some 2\<rparr>,
      teachers = [teacher1], classes = [class1], subjects = [math_subject 2],
      rooms = [room1], use_room_constraints = False, max_subjects_per_day = 2,
      free_periods = [], days = [''MONDAY'', ''TUESDAY''],
      time_slots = [(''08:00'', ''09:00''), (''09:00'', ''10:00'')],
      teacher_ids = [''teacher-1''], class_ids = [''class-1''],
      subject_ids = [''math''], room_ids = [''room-1'']\<rparr>"

definition small_model :: cp_model where
  "small_model =
     \<lparr>assignment_vars = [(0, 0, 0, 0, 0, 0), (0, 0, 0, 0, 0, 1),
                         (0, 0, 0, 0, 1, 0), (0, 0, 0, 0, 1, 1)],
      constraints =
        [SumEq [(0, 0, 0, 0, 0, 0), (0, 0, 0, 0, 0, 1),
                (0, 0, 0, 0, 1, 0), (0, 0, 0, 0, 1, 1)] 2,
         SumEq [(0, 0, 0, 0, 0, 0), (0, 0, 0, 0, 0, 1),
                (0, 0, 0, 0, 1, 0), (0, 0, 0, 0, 1, 1)] 2]\<rparr>"

text \<open>
  A school day of thirty minutes is too short for one lesson of sixty: the time grid is
  empty.
\<close>

definition zero_slot_data :: input_data where
  "zero_slot_data =
     small_data\<lparr>d_school_settings := Some (small_settings\<lparr>endTime := Some ''08:30''\<rparr>)\<rparr>"

definition zero_slot_scheduler :: scheduler where
  "zero_slot_scheduler =
     small_scheduler\<lparr>sch_settings := small_settings\<lparr>endTime := Some ''08:30'',
                                                     maxSubjectsPerDay := Some 2\<rparr>,
                      time_slots := []\<rparr>"

text \<open>
  A lunch break start that is not a time. The validator reads only the start and the
  end of the school day, so it accepts this input.
\<close>

definition malformed_lunch_data :: input_data where
  "malformed_lunch_data =
     small_data\<lparr>d_school_settings :=
                   Some (small_settings\<lparr>lunchBreakStartTime := Some ''noon''\<rparr>)\<rparr>"

text \<open>A start of the school day that is not a time.\<close>

definition malformed_start_data :: input_data where
  "malformed_start_data =
     small_data\<lparr>d_school_settings := Some (small_settings\<lparr>startTime := Some ''8 am''\<rparr>)\<rparr>"

definition malformed_start_scheduler :: scheduler where
  "malformed_start_scheduler =
     small_scheduler\<lparr>sch_settings := small_settings\<lparr>startTime := Some ''8 am'',
                                                     maxSubjectsPerDay := Some 2\<rparr>,
                      time_slots := default_time_slots\<rparr>"

text \<open>
  Five hours of mathematics a week cannot be placed on two days of two slots: the
  four decision variables cannot sum to five.
\<close>

definition infeasible_data :: input_data where
  "infeasible_data = small_data\<lparr>d_subjects := Some [math_subject 5]\<rparr>"

definition infeasible_scheduler :: scheduler where
  "infeasible_scheduler = small_scheduler\<lparr>subjects := [math_subject 5]\<rparr>"

definition infeasible_model :: cp_model where
  "infeasible_model =
     \<lparr>assignment_vars = [(0, 0, 0, 0, 0, 0), (0, 0, 0, 0, 0, 1),
                         (0, 0, 0, 0, 1, 0), (0, 0, 0, 0, 1, 1)],
      constraints =
        [SumEq [(0, 0, 0, 0, 0, 0), (0, 0, 0, 0, 0, 1),
                (0, 0, 0, 0, 1, 0), (0, 0, 0, 0, 1, 1)] 5,
         SumEq [(0, 0, 0, 0, 0, 0), (0, 0, 0, 0, 0, 1),
                (0, 0, 0, 0, 1, 0), (0, 0, 0, 0, 1, 1)] 5]\<rparr>"

text \<open>A second run of the solving environment: other random draws and other uuids.\<close>

definition second_run :: "env \<Rightarrow> env" where
  "second_run env =
     env\<lparr>random := (\<lambda>k. 7 * k + 3),
         schedule_uuid := ''6ec0bd7f-11c0-43da-975e-2a8ad9ebae0b'',
         entry_uuid := (\<lambda>n. ''other-'' @ str_nat n),
         error_uuid := ''3b241101-e2bb-4255-8caf-4136c566a962''\<rparr>"

text \<open>
  The class also requires art, two hours a week, which is in the catalogue but which
  no teacher teaches. The scheduler object differs from \<open>small_scheduler\<close> in the class
  and the catalogue; the model is \<open>small_model\<close>, which has no variable for art.
\<close>

definition art_subject :: subject where
  "art_subject = \<lparr>s_id = Some ''art'', s_name = Some ''Art'', hoursPerWeek = Some 2\<rparr>"

definition untaught_data :: input_data where
  "untaught_data =
     small_data\<lparr>d_classes := Some [class1\<lparr>requiredSubjects := Some [''math'', ''art'']\<rparr>],
                 d_subjects := Some [math_subject 2, art_subject]\<rparr>"

definition untaught_scheduler :: scheduler where
  "untaught_scheduler =
     small_scheduler\<lparr>classes := [class1\<lparr>requiredSubjects := Some [''math'', ''art'']\<rparr>],
                      subjects := [math_subject 2, art_subject],
                      subject_ids := [''math'', ''art'']\<rparr>"


section \<open>Clashes between entries\<close>

text \<open>
  Two entries lie in adjacent slots when their start times are the start times of
  two consecutive slots of the scheduler's time grid, in either order.
\<close>

definition adjacent_slots :: "scheduler \<Rightarrow> entry \<Rightarrow> entry \<Rightarrow> bool" where
  "adjacent_slots sch a b =
     list_ex (\<lambda>i.
         (e_startTime a = fst (time_slots sch ! i) \<and>
          e_startTime b = fst (time_slots sch ! Suc i)) \<or>
         (e_startTime b = fst (time_slots sch ! i) \<and>
          e_startTime a = fst (time_slots sch ! Suc i)))
       [0 ..< length (time_slots sch) - 1]"

text \<open>
  The entries \<open>a\<close> and \<open>b\<close> clash when they share day, slot and teacher, or day, slot
  and class, or class, day and subject.
\<close>

definition clash :: "entry \<Rightarrow> entry \<Rightarrow> bool" where
  "clash a b =
     ((e_day a = e_day b \<and> e_startTime a = e_startTime b \<and> teacherId a = teacherId b) \<or>
      (e_day a = e_day b \<and> e_startTime a = e_startTime b \<and> classId a = classId b) \<or>
      (classId a = classId b \<and> e_day a = e_day b \<and> subjectId a = subjectId b))"

text \<open>What two schedules are compared by: every field of an entry but its random id.\<close>

definition entry_tuple ::
  "entry \<Rightarrow> string \<times> string \<times> string \<times> string option \<times> string \<times> string option \<times> string option"
  where
  "entry_tuple e =
     (e_day e, e_startTime e, e_endTime e, classId e, subjectId e, teacherId e, roomId e)"

text \<open>Two schedule ids carry the same one of the three prefixes.\<close>

definition same_kind :: "schedule \<Rightarrow> schedule \<Rightarrow> bool" where
  "same_kind s1 s2 =
     ((prefix ''generated-schedule-'' (scheduleId s1) =
       prefix ''generated-schedule-'' (scheduleId s2)) \<and>
      (prefix ''mock-schedule-'' (scheduleId s1) = prefix ''mock-schedule-'' (scheduleId s2)) \<and>
      (prefix ''error-schedule-'' (scheduleId s1) = prefix ''error-schedule-'' (scheduleId s2)))"

section \<open>Properties of the time grid builder\<close>

subsection \<open>Parsing a formatted time gives the minutes back\<close>

lemma digit_char_props:
  assumes "n < 10"
  shows "is_digit (digit_char n)" "digit_val (digit_char n) = n"
  using assms by (auto simp: is_digit_def digit_val_def digit_char_def Let_def)

lemma is_digit_not_sep:
  "is_digit c \<Longrightarrow> c \<noteq> CHR '':'' \<and> c \<noteq> CHR ''-'' \<and> c \<noteq> CHR ''+'' \<and> c \<noteq> CHR ''_'' \<and> \<not> is_space c"
  by (auto simp: is_digit_def is_space_def Let_def)

lemma str_nat_digits: "list_all is_digit (str_nat n)"
proof (induction n rule: str_nat.induct)
  case (1 n)
  show ?case
    by (subst str_nat.simps) (use 1 in \<open>auto simp: digit_char_props\<close>)
qed

lemma str_nat_nonempty: "str_nat n \<noteq> []"
  by (subst str_nat.simps) auto

lemma digits_val_snoc:
  "list_all is_digit xs \<Longrightarrow> is_digit d \<Longrightarrow>
     digits_val (xs @ [d]) acc = map_option (\<lambda>v. 10 * v + digit_val d) (digits_val xs acc)"
  by (induction xs arbitrary: acc) auto

lemma digits_val_str_nat: "digits_val (str_nat n) 0 = Some n"
proof (induction n rule: str_nat.induct)
  case (1 n)
  show ?case
  proof (cases "n < 10")
    case True
    then show ?thesis by (subst str_nat.simps) (simp add: digit_char_props)
  next
    case False
    then have "digits_val (str_nat n) 0 = map_option (\<lambda>v. 10 * v + digit_val (digit_char (n mod 10))) (digits_val (str_nat (n div 10)) 0)"
      by (subst str_nat.simps) (simp add: digits_val_snoc str_nat_digits digit_char_props)
    with 1 False show ?thesis by (simp add: digit_char_props)
  qed
qed

lemma int_body_str_nat: "int_body (str_nat n) = Some n"
proof -
  obtain c cs where e: "str_nat n = c # cs" using str_nat_nonempty by (cases "str_nat n") auto
  moreover have "is_digit c" using str_nat_digits [of n] e by simp
  ultimately show ?thesis using digits_val_str_nat [of n] by (simp add: int_body_def)
qed

lemma strip_id:
  assumes "s \<noteq> []" "\<not> is_space (hd s)" "\<not> is_space (last s)"
  shows "strip s = s"
proof -
  have "dropWhile is_space (rev s) = rev s"
    using assms by (simp add: dropWhile_eq_self_iff hd_rev)
  moreover have "dropWhile is_space s = s"
    using assms by (simp add: dropWhile_eq_self_iff)
  ultimately show ?thesis by (simp add: strip_def)
qed

lemma list_all_hd_last:
  "list_all P xs \<Longrightarrow> xs \<noteq> [] \<Longrightarrow> P (hd xs) \<and> P (last xs)"
  by (induction xs) auto

lemma str_nat_hd_last: "is_digit (hd (str_nat n))" "is_digit (last (str_nat n))"
  using list_all_hd_last [OF str_nat_digits str_nat_nonempty] by blast+

lemma py_int_str_nat: "py_int (str_nat n) = Inr (int n)"
proof -
  obtain c cs where e: "str_nat n = c # cs" using str_nat_nonempty by (cases "str_nat n") auto
  have "strip (str_nat n) = str_nat n"
    using str_nat_hd_last [of n] is_digit_not_sep
    by (intro strip_id) (auto simp: str_nat_nonempty)
  moreover have "c \<noteq> CHR ''-''" "c \<noteq> CHR ''+''"
    using str_nat_hd_last(1) [of n] e is_digit_not_sep [of c] by auto
  ultimately show ?thesis
    using int_body_str_nat [of n] by (simp add: py_int_def e)
qed

lemma py_int_signed:
  assumes "c = CHR ''-'' \<or> c = CHR ''0''"
  shows "py_int (c # str_nat n) = Inr (if c = CHR ''-'' then - int n else int n)"
proof -
  have ns: "\<not> is_space c" using assms by (auto simp: is_space_def)
  have "strip (c # str_nat n) = c # str_nat n"
    using str_nat_hd_last(2) [of n] is_digit_not_sep ns
    by (intro strip_id) (auto simp: str_nat_nonempty)
  moreover have "int_body (CHR ''0'' # str_nat n) = Some n"
    using digits_val_str_nat [of n] by (simp add: int_body_def is_digit_def digit_val_def)
  ultimately show ?thesis
    using assms int_body_str_nat [of n] by (auto simp: py_int_def)
qed

lemma py_int_fmt02d: "py_int (fmt02d i) = Inr i"
  using py_int_signed [of "CHR ''-''" "nat (- i)"] py_int_signed [of "CHR ''0''" "nat i"]
    py_int_str_nat [of "nat i"]
  by (auto simp: fmt02d_def)

lemma fmt02d_no_colon: "CHR '':'' \<notin> set (fmt02d i)"
  using str_nat_digits is_digit_not_sep by (auto simp: fmt02d_def list_all_iff)

lemma split_on_no_sep: "sep \<notin> set xs \<Longrightarrow> split_on sep xs = [xs]"
  by (induction xs) auto

lemma split_on_append: "sep \<notin> set xs \<Longrightarrow> split_on sep (xs @ sep # ys) = xs # split_on sep ys"
  by (induction xs) auto

lemma time_roundtrip: "time_to_minutes (minutes_to_time m) = Inr m"
proof -
  have "split_on CHR '':'' (minutes_to_time m) = [fmt02d (m div 60), fmt02d (m mod 60)]"
    by (simp add: minutes_to_time_def split_on_append split_on_no_sep fmt02d_no_colon)
  then show ?thesis
    by (simp add: time_to_minutes_def py_int_fmt02d bind_e_def)
qed

lemma time_slots_loop_total:
  assumes pos: "1 \<le> lesson_duration g + break_duration g"
  shows "start0 \<le> cur \<Longrightarrow> list_all (slot_ok g start0) acc \<Longrightarrow>
         \<exists>r. time_slots_loop g cur acc = Some r \<and> list_all (slot_ok g start0) r"
proof (induction "nat (end_minutes g - lesson_duration g - cur + 1)" arbitrary: cur acc rule: less_induct)
  case less
  show ?case
  proof (cases "cur + lesson_duration g \<le> end_minutes g")
    case False
    then show ?thesis using less.prems by (subst time_slots_loop.simps) simp
  next
    case guard: True
    show ?thesis
    proof (cases "has_breakfast_break g \<and> cur < breakfast_end_minutes g \<and> cur + lesson_duration g > breakfast_start_minutes g")
      case True
      then have "\<exists>r. time_slots_loop g (breakfast_end_minutes g) acc = Some r \<and> list_all (slot_ok g start0) r"
        using guard less.prems by (intro less.hyps) auto
      then show ?thesis using guard True by (subst time_slots_loop.simps) simp
    next
      case nb: False
      show ?thesis
      proof (cases "cur < lunch_end_minutes g \<and> cur + lesson_duration g > lunch_start_minutes g")
        case True
        then have "\<exists>r. time_slots_loop g (lunch_end_minutes g) acc = Some r \<and> list_all (slot_ok g start0) r"
          using guard less.prems by (intro less.hyps) auto
        then show ?thesis using guard True nb by (subst time_slots_loop.simps) auto
      next
        case nl: False
        let ?slot = "(minutes_to_time cur, minutes_to_time (cur + lesson_duration g))"
        have ok: "slot_ok g start0 ?slot"
          using guard nb nl less.prems(1) by (auto simp: slot_ok_def time_roundtrip)
        have "\<exists>r. time_slots_loop g (cur + (lesson_duration g + break_duration g)) (acc @ [?slot]) = Some r
                 \<and> list_all (slot_ok g start0) r"
          using guard pos less.prems ok by (intro less.hyps) auto
        then show ?thesis using guard nb nl by (subst time_slots_loop.simps) auto
      qed
    qed
  qed
qed

lemma py_int_two_digits:
  assumes "is_digit a" "is_digit b"
  shows "py_int [a, b] = Inr (int (10 * digit_val a + digit_val b))"
proof -
  have "strip [a, b] = [a, b]"
    using assms is_digit_not_sep by (intro strip_id) auto
  then show ?thesis
    using assms is_digit_not_sep [of a] by (simp add: py_int_def int_body_def)
qed

lemma wf_hhmm_parses:
  assumes "wf_hhmm s"
  shows "time_to_minutes s = Inr (minutes_of s)"
proof -
  from assms obtain h1 h2 m1 m2 where s: "s = [h1, h2, CHR '':'', m1, m2]"
    and d: "is_digit h1" "is_digit h2" "is_digit m1" "is_digit m2"
    by (auto simp: wf_hhmm_def split: list.splits)
  have "split_on CHR '':'' s = [[h1, h2], [m1, m2]]"
    using d is_digit_not_sep by (auto simp: s)
  then have "\<exists>v. time_to_minutes s = Inr v"
    using d by (simp add: time_to_minutes_def py_int_two_digits bind_e_def)
  then show ?thesis by (auto simp: minutes_of_def)
qed

lemma time_slots_loop_terminates:
  assumes pos: "1 \<le> lesson_duration g + break_duration g"
  shows "\<exists>r. time_slots_loop g cur acc = Some r"
proof (induction "nat (end_minutes g - lesson_duration g - cur + 1)" arbitrary: cur acc rule: less_induct)
  case less
  show ?case
  proof (cases "cur + lesson_duration g \<le> end_minutes g")
    case False
    then show ?thesis by (subst time_slots_loop.simps) simp
  next
    case guard: True
    have b: "cur < breakfast_end_minutes g \<Longrightarrow> \<exists>r. time_slots_loop g (breakfast_end_minutes g) acc = Some r"
      using guard by (intro less.hyps) auto
    have l: "cur < lunch_end_minutes g \<Longrightarrow> \<exists>r. time_slots_loop g (lunch_end_minutes g) acc = Some r"
      using guard by (intro less.hyps) auto
    have e: "\<exists>r. time_slots_loop g (cur + (lesson_duration g + break_duration g)) acc' = Some r" for acc'
      using guard pos by (intro less.hyps) auto
    show ?thesis
      using guard b l e by (subst time_slots_loop.simps) auto
  qed
qed

lemma grid_setup_wf:
  assumes "startTime st = Some a" "time_to_minutes a = Inr am"
    and "endTime st = Some b" "time_to_minutes b = Inr bm"
    and "lunchBreakStartTime st = Some l" "time_to_minutes l = Inr lm"
    and "breakfastBreakStartTime st = Some bf" "hb \<Longrightarrow> time_to_minutes bf = Inr fm"
    and "hasBreakfastBreak st = Some hb"
    and "lessonDuration st = Some L" "breakDuration st = Some B"
    and "breakfastBreakDuration st = Some bd" "lunchBreakDuration st = Some ld"
  shows "grid_setup st =
     Inr (\<lparr>lesson_duration = L, break_duration = B, end_minutes = bm, has_breakfast_break = hb,
           breakfast_start_minutes = (if hb then fm else - 1),
           breakfast_end_minutes = (if hb then fm + bd else - 1),
           lunch_start_minutes = lm, lunch_end_minutes = lm + ld\<rparr>, am)"
  using assms by (simp add: grid_setup_def getitem_def bind_e_def)

section \<open>The sample inputs evaluated\<close>

lemma small_data_init: "scheduler_init small_data = Some (Inr small_scheduler)"
  by code_simp

lemma small_scheduler_model: "build_model small_scheduler = Inr small_model"
  by code_simp

section \<open>Facts shared by the proofs below\<close>

lemma mock_schedule_id:
  "scheduleId (generate_mock_schedule sch env) = ''mock-schedule-'' @ take 8 (schedule_uuid env)"
  by (simp add: generate_mock_schedule_def Let_def split: prod.splits)

subsection \<open>Termination of the slot loop\<close>

text \<open>
  Claim C10. For settings whose time fields are well-formed \<^verbatim>\<open>HH:MM\<close> strings, with
  \<open>lessonDuration \<ge> 1\<close> and \<open>breakDuration \<ge> 0\<close>, the slot loop of the time grid
  builder terminates from every cursor and with every accumulated list, and the
  builder returns a list: it is total under this precondition. (Each iteration moves
  the cursor strictly forward: to the end of a break window that lies ahead of it, or
  by \<open>lessonDuration + breakDuration \<ge> 1\<close>.)
\<close>

theorem time_grid_builder_terminates:
  assumes "startTime st = Some a" "wf_hhmm a"
    and "endTime st = Some b" "wf_hhmm b"
    and "lunchBreakStartTime st = Some l" "wf_hhmm l"
    and "breakfastBreakStartTime st = Some bf" "wf_hhmm bf"
    and "hasBreakfastBreak st = Some hb"
    and "lessonDuration st = Some L" "1 \<le> L"
    and "breakDuration st = Some B" "0 \<le> B"
    and "breakfastBreakDuration st = Some bd" "lunchBreakDuration st = Some ld"
  shows "(\<exists>g start_minutes. grid_setup st = Inr (g, start_minutes) \<and>
            (\<forall>cur acc. \<exists>r. time_slots_loop g cur acc = Some r)) \<and>
         (\<exists>slots. generate_time_slots st = Some slots)"
proof -
  let ?g = "\<lparr>lesson_duration = L, break_duration = B, end_minutes = minutes_of b,
             has_breakfast_break = hb,
             breakfast_start_minutes = (if hb then minutes_of bf else - 1),
             breakfast_end_minutes = (if hb then minutes_of bf + bd else - 1),
             lunch_start_minutes = minutes_of l, lunch_end_minutes = minutes_of l + ld\<rparr>"
  have gs: "grid_setup st = Inr (?g, minutes_of a)"
    using assms(1,3,5,7,9,10,12,14,15) assms(2,4,6,8) [THEN wf_hhmm_parses]
    by (intro grid_setup_wf)
  have "1 \<le> lesson_duration ?g + break_duration ?g"
    using assms by simp
  then have tot: "\<exists>r. time_slots_loop ?g cur acc = Some r" for cur acc
    by (rule time_slots_loop_terminates)
  show ?thesis
    using gs tot by (simp add: generate_time_slots_def)
qed

theorem time_grid_builder_terminates_witness:
  "(\<exists>g start_minutes. grid_setup sample_settings = Inr (g, start_minutes) \<and>
      (\<forall>cur acc. \<exists>r. time_slots_loop g cur acc = Some r)) \<and>
   (\<exists>slots. generate_time_slots sample_settings = Some slots) \<and>
   generate_time_slots sample_settings =
     Some [(''08:00'', ''09:00''), (''10:25'', ''11:25''), (''12:45'', ''13:45''),
           (''14:00'', ''15:00'')]"
proof -
  have wf: "wf_hhmm ''08:00''" "wf_hhmm ''15:00''" "wf_hhmm ''12:00''" "wf_hhmm ''10:00''"
    by (simp_all add: wf_hhmm_def is_digit_def digit_val_def)
  have ev: "generate_time_slots sample_settings =
     Some [(''08:00'', ''09:00''), (''10:25'', ''11:25''), (''12:45'', ''13:45''),
           (''14:00'', ''15:00'')]"
    by code_simp
  show ?thesis
    using time_grid_builder_terminates [of sample_settings "''08:00''" "''15:00''" "''12:00''"
        "''10:00''" True 60 15 25 45] wf ev
    by (simp add: sample_settings_def)
qed

subsection \<open>Slots keep clear of the breaks\<close>

lemma slot_okD:
  assumes "slot_ok g s0 (s, e)"
  shows "\<exists>x. time_to_minutes s = Inr x \<and> time_to_minutes e = Inr (x + lesson_duration g) \<and>
           s0 \<le> x \<and> x + lesson_duration g \<le> end_minutes g \<and>
           {x ..< x + lesson_duration g} \<inter> {lunch_start_minutes g ..< lunch_end_minutes g} = {} \<and>
           (has_breakfast_break g \<longrightarrow>
              {x ..< x + lesson_duration g} \<inter> {breakfast_start_minutes g ..< breakfast_end_minutes g} = {})"
  using assms by (auto simp: slot_ok_def split: sum.splits if_splits)

text \<open>
  Claim C5. For settings whose time fields are well-formed \<^verbatim>\<open>HH:MM\<close> strings and whose
  durations are positive, the time grid builder returns a list, and every slot
  \<open>(s, e)\<close> of it starts at some minute \<open>x\<close> with \<open>e\<close> exactly \<open>lessonDuration\<close> later,
  lies within the school day, does not meet the lunch window
  \<open>[lunchBreakStartTime, lunchBreakStartTime + lunchBreakDuration)\<close> and, when
  \<open>hasBreakfastBreak\<close> is true, does not meet the breakfast window. When
  \<open>hasBreakfastBreak\<close> is false the breakfast window has no influence: the returned
  list is the same for every breakfast start and duration.
\<close>

theorem time_slots_avoid_breaks:
  assumes "startTime st = Some a" "wf_hhmm a"
    and "endTime st = Some b" "wf_hhmm b"
    and "lunchBreakStartTime st = Some l" "wf_hhmm l"
    and "breakfastBreakStartTime st = Some bf" "hb \<longrightarrow> wf_hhmm bf"
    and "hasBreakfastBreak st = Some hb"
    and "lessonDuration st = Some L" "0 < L"
    and "breakDuration st = Some B" "0 < B"
    and "breakfastBreakDuration st = Some bd" "0 < bd"
    and "lunchBreakDuration st = Some ld" "0 < ld"
  shows "(\<exists>slots. generate_time_slots st = Some slots \<and>
            list_all (\<lambda>(s, e). \<exists>x.
                time_to_minutes s = Inr x \<and> time_to_minutes e = Inr (x + L) \<and>
                minutes_of a \<le> x \<and> x + L \<le> minutes_of b \<and>
                {x ..< x + L} \<inter> {minutes_of l ..< minutes_of l + ld} = {} \<and>
                (hb \<longrightarrow> {x ..< x + L} \<inter> {minutes_of bf ..< minutes_of bf + bd} = {}))
              slots) \<and>
         (\<not> hb \<longrightarrow> (\<forall>bf' bd'.
            generate_time_slots
              (st\<lparr>breakfastBreakStartTime := Some bf', breakfastBreakDuration := Some bd'\<rparr>)
            = generate_time_slots st))"
proof -
  let ?g = "\<lparr>lesson_duration = L, break_duration = B, end_minutes = minutes_of b,
             has_breakfast_break = hb,
             breakfast_start_minutes = (if hb then minutes_of bf else - 1),
             breakfast_end_minutes = (if hb then minutes_of bf + bd else - 1),
             lunch_start_minutes = minutes_of l, lunch_end_minutes = minutes_of l + ld\<rparr>"
  have pb: "hb \<Longrightarrow> time_to_minutes bf = Inr (minutes_of bf)"
    using assms(8) by (simp add: wf_hhmm_parses)
  have gs: "grid_setup st = Inr (?g, minutes_of a)"
    using assms(1,3,5,7,9,10,12,14,16) assms(2,4,6) [THEN wf_hhmm_parses] pb
    by (intro grid_setup_wf)
  have "1 \<le> lesson_duration ?g + break_duration ?g"
    using assms by simp
  from time_slots_loop_total [OF this, of "minutes_of a" "minutes_of a" "[]"]
  obtain r where r: "time_slots_loop ?g (minutes_of a) [] = Some r"
    and ok: "list_all (slot_ok ?g (minutes_of a)) r"
    by auto
  have "list_all (\<lambda>(s, e). \<exists>x.
                time_to_minutes s = Inr x \<and> time_to_minutes e = Inr (x + L) \<and>
                minutes_of a \<le> x \<and> x + L \<le> minutes_of b \<and>
                {x ..< x + L} \<inter> {minutes_of l ..< minutes_of l + ld} = {} \<and>
                (hb \<longrightarrow> {x ..< x + L} \<inter> {minutes_of bf ..< minutes_of bf + bd} = {})) r"
    unfolding list_all_iff
  proof (intro ballI)
    fix p assume "p \<in> set r"
    then have "slot_ok ?g (minutes_of a) (fst p, snd p)" using ok by (simp add: list_all_iff)
    from slot_okD [OF this] show "case p of (s, e) \<Rightarrow> \<exists>x.
                time_to_minutes s = Inr x \<and> time_to_minutes e = Inr (x + L) \<and>
                minutes_of a \<le> x \<and> x + L \<le> minutes_of b \<and>
                {x ..< x + L} \<inter> {minutes_of l ..< minutes_of l + ld} = {} \<and>
                (hb \<longrightarrow> {x ..< x + L} \<inter> {minutes_of bf ..< minutes_of bf + bd} = {})"
      by (cases p) auto
  qed
  then have first: "\<exists>slots. generate_time_slots st = Some slots \<and>
            list_all (\<lambda>(s, e). \<exists>x.
                time_to_minutes s = Inr x \<and> time_to_minutes e = Inr (x + L) \<and>
                minutes_of a \<le> x \<and> x + L \<le> minutes_of b \<and>
                {x ..< x + L} \<inter> {minutes_of l ..< minutes_of l + ld} = {} \<and>
                (hb \<longrightarrow> {x ..< x + L} \<inter> {minutes_of bf ..< minutes_of bf + bd} = {}))
              slots"
    using gs r by (simp add: generate_time_slots_def)
  have second: "generate_time_slots
              (st\<lparr>breakfastBreakStartTime := Some bf', breakfastBreakDuration := Some bd'\<rparr>)
            = generate_time_slots st" if "\<not> hb" for bf' bd'
  proof -
    have "grid_setup (st\<lparr>breakfastBreakStartTime := Some bf', breakfastBreakDuration := Some bd'\<rparr>)
          = Inr (?g, minutes_of a)"
      using that assms(1,3,5,9,10,12,16) assms(2,4,6) [THEN wf_hhmm_parses]
      by (simp add: grid_setup_def getitem_def bind_e_def)
    with gs show ?thesis by (simp add: generate_time_slots_def)
  qed
  show ?thesis using first second by blast
qed

theorem time_slots_avoid_breaks_witness:
  "(\<exists>slots. generate_time_slots sample_settings = Some slots \<and>
            list_all (\<lambda>(s, e). \<exists>x.
                time_to_minutes s = Inr x \<and> time_to_minutes e = Inr (x + 60) \<and>
                minutes_of ''08:00'' \<le> x \<and> x + 60 \<le> minutes_of ''15:00'' \<and>
                {x ..< x + 60} \<inter> {minutes_of ''12:00'' ..< minutes_of ''12:00'' + 45} = {} \<and>
                (True \<longrightarrow> {x ..< x + 60} \<inter> {minutes_of ''10:00'' ..< minutes_of ''10:00'' + 25} = {}))
              slots) \<and>
   generate_time_slots sample_settings =
     Some [(''08:00'', ''09:00''), (''10:25'', ''11:25''), (''12:45'', ''13:45''),
           (''14:00'', ''15:00'')] \<and>
   (\<forall>bf' bd'.
      generate_time_slots
        (sample_settings_no_breakfast\<lparr>breakfastBreakStartTime := Some bf',
                                        breakfastBreakDuration := Some bd'\<rparr>)
      = generate_time_slots sample_settings_no_breakfast) \<and>
   generate_time_slots sample_settings_no_breakfast =
     Some [(''08:00'', ''09:00''), (''09:15'', ''10:15''), (''10:30'', ''11:30''),
           (''12:45'', ''13:45''), (''14:00'', ''15:00'')]"
proof -
  have wf: "wf_hhmm ''08:00''" "wf_hhmm ''15:00''" "wf_hhmm ''12:00''" "wf_hhmm ''10:00''"
    by (simp_all add: wf_hhmm_def is_digit_def digit_val_def)
  have ev1: "generate_time_slots sample_settings =
     Some [(''08:00'', ''09:00''), (''10:25'', ''11:25''), (''12:45'', ''13:45''),
           (''14:00'', ''15:00'')]"
    by code_simp
  have ev2: "generate_time_slots sample_settings_no_breakfast =
     Some [(''08:00'', ''09:00''), (''09:15'', ''10:15''), (''10:30'', ''11:30''),
           (''12:45'', ''13:45''), (''14:00'', ''15:00'')]"
    by code_simp
  have t1: "(\<exists>slots. generate_time_slots sample_settings = Some slots \<and>
            list_all (\<lambda>(s, e). \<exists>x.
                time_to_minutes s = Inr x \<and> time_to_minutes e = Inr (x + 60) \<and>
                minutes_of ''08:00'' \<le> x \<and> x + 60 \<le> minutes_of ''15:00'' \<and>
                {x ..< x + 60} \<inter> {minutes_of ''12:00'' ..< minutes_of ''12:00'' + 45} = {} \<and>
                (True \<longrightarrow> {x ..< x + 60} \<inter> {minutes_of ''10:00'' ..< minutes_of ''10:00'' + 25} = {}))
              slots)"
    using time_slots_avoid_breaks [of sample_settings "''08:00''" "''15:00''" "''12:00''"
        "''10:00''" True 60 15 25 45, THEN conjunct1] wf
    by (simp add: sample_settings_def)
  have t2: "\<forall>bf' bd'.
      generate_time_slots
        (sample_settings_no_breakfast\<lparr>breakfastBreakStartTime := Some bf',
                                        breakfastBreakDuration := Some bd'\<rparr>)
      = generate_time_slots sample_settings_no_breakfast"
    using time_slots_avoid_breaks [of sample_settings_no_breakfast "''08:00''" "''15:00''" "''12:00''"
        "''10:00''" False 60 15 25 45, THEN conjunct2] wf
    by (simp add: sample_settings_def sample_settings_no_breakfast_def)
  show ?thesis using t1 ev1 t2 ev2 by blast
qed

subsection \<open>The validator's room count\<close>

text \<open>
  Claim C7 says that the issue ``not enough rooms'' is reported only when room
  constraints are enabled. The check on the numbers of rooms and classes is the last
  statement of the validator and is not guarded by \<^verbatim>\<open>useRoomConstraints\<close>, unlike the
  sibling check ``No rooms provided (required when room constraints are enabled)''.
  The theorem evaluates the validator on an input with room constraints disabled, one
  class and no room: the issue is reported and the input is judged infeasible.
\<close>

theorem room_count_checked_without_room_constraints:
  "useRoomConstraints small_settings = Some False \<and>
   d_school_settings no_rooms_data = Some small_settings \<and>
   d_rooms no_rooms_data = Some [] \<and>
   validate_constraints no_rooms_data =
     \<lparr>feasible = False,
      issues = [''Not enough rooms provided (0) for the number of classes (1).'']\<rparr>"
  by code_simp

subsection \<open>Exceptions and the error schedule\<close>

lemma extract_solution_prefix:
  assumes "extract_solution sch env m st val = Inr s"
  shows "\<not> prefix ''error-schedule-'' (scheduleId s)"
  using assms
  by (auto simp: extract_solution_def bind_e_def mock_schedule_id split: if_splits sum.splits)

lemma run_scheduler_result_prefix:
  assumes "run_scheduler data env = Some (Inr s)"
  shows "\<not> prefix ''error-schedule-'' (scheduleId s)"
proof -
  from assms obtain sch m where
    "(case solver env m of (st, val) \<Rightarrow>
        if st = OPTIMAL \<or> st = FEASIBLE then extract_solution sch env m st val
        else Inr (generate_mock_schedule sch env)) = Inr s"
    by (auto simp: run_scheduler_def bind_e_def split: option.splits sum.splits)
  then show ?thesis
    using extract_solution_prefix [of sch env m _ _ s]
    by (cases "solver env m") (auto simp: mock_schedule_id split: if_splits)
qed

text \<open>
  Claim C3 says that any exception raised during schedule generation ends in the
  error schedule. An exception raised inside the time grid builder is caught there
  (the default slots take its place) and never reaches the handler of
  \<^verbatim>\<open>generate_schedule\<close>. As amended: if an exception leaves the body of the \<^verbatim>\<open>try\<close>
  block of \<^verbatim>\<open>generate_schedule\<close> (it is raised by the constructor outside the time grid
  builder, while the model is built, or by the extractor), the function returns a
  schedule whose id starts with \<^verbatim>\<open>error-schedule-\<close> and whose list of entries is empty;
  and a returned schedule has that prefix only on this path, always with no entries,
  so no partially filled schedule is returned.
\<close>

theorem error_schedule_on_uncaught_exception:
  "(run_scheduler data env = Some (Inl e) \<longrightarrow>
      (\<exists>s. generate_schedule data env = Some s \<and>
           prefix ''error-schedule-'' (scheduleId s) \<and> entries s = [])) \<and>
   (generate_schedule data env = Some s \<and> prefix ''error-schedule-'' (scheduleId s) \<longrightarrow>
      (\<exists>e'. run_scheduler data env = Some (Inl e')) \<and> entries s = [])"
proof -
  have a: "\<exists>s. generate_schedule data env = Some s \<and>
             prefix ''error-schedule-'' (scheduleId s) \<and> entries s = []"
    if "run_scheduler data env = Some (Inl e)"
    using that by (simp add: generate_schedule_def error_schedule_def)
  have b: "(\<exists>e'. run_scheduler data env = Some (Inl e')) \<and> entries s = []"
    if g: "generate_schedule data env = Some s" and p: "prefix ''error-schedule-'' (scheduleId s)"
  proof -
    from g obtain r where r: "run_scheduler data env = Some r"
      by (auto simp: generate_schedule_def)
    show ?thesis
    proof (cases r)
      case (Inl e')
      then have "s = error_schedule env" using g r by (simp add: generate_schedule_def)
      then show ?thesis using r Inl by (simp add: error_schedule_def)
    next
      case (Inr s')
      then have "s' = s" using g r by (simp add: generate_schedule_def)
      then show ?thesis using run_scheduler_result_prefix [of data env s] r Inr p by simp
    qed
  qed
  show ?thesis using a b by blast
qed

text \<open>
  In the witness the extractor raises after it has built the entry of the first
  class: the second class has no name. The entry that was built is not returned.
\<close>

theorem error_schedule_on_uncaught_exception_witness:
  "run_scheduler unnamed_class_data (solving_env [(0, 0, 0, 0, 0, 0), (1, 0, 0, 0, 0, 1)])
     = Some (Inl KeyError) \<and>
   (\<exists>s. generate_schedule unnamed_class_data
           (solving_env [(0, 0, 0, 0, 0, 0), (1, 0, 0, 0, 0, 1)]) = Some s \<and>
        prefix ''error-schedule-'' (scheduleId s) \<and> entries s = []) \<and>
   generate_schedule unnamed_class_data (solving_env [(0, 0, 0, 0, 0, 0), (1, 0, 0, 0, 0, 1)])
     = Some \<lparr>scheduleId = ''error-schedule-9c5b94b1'', entries = []\<rparr> \<and>
   prefix ''error-schedule-''
     (scheduleId \<lparr>scheduleId = ''error-schedule-9c5b94b1'', entries = []\<rparr>) \<and>
   (\<exists>e'. run_scheduler unnamed_class_data
            (solving_env [(0, 0, 0, 0, 0, 0), (1, 0, 0, 0, 0, 1)]) = Some (Inl e'))"
proof -
  let ?env = "solving_env [(0, 0, 0, 0, 0, 0), (1, 0, 0, 0, 0, 1)]"
  let ?s = "\<lparr>scheduleId = ''error-schedule-9c5b94b1'', entries = []\<rparr>"
  have r: "run_scheduler unnamed_class_data ?env = Some (Inl KeyError)"
    by code_simp
  have g: "generate_schedule unnamed_class_data ?env = Some ?s"
    by code_simp
  have p: "prefix ''error-schedule-'' (scheduleId ?s)"
    by simp
  from error_schedule_on_uncaught_exception [of unnamed_class_data ?env KeyError ?s]
  have "\<exists>s. generate_schedule unnamed_class_data ?env = Some s \<and>
           prefix ''error-schedule-'' (scheduleId s) \<and> entries s = []"
    and "\<exists>e'. run_scheduler unnamed_class_data ?env = Some (Inl e')"
    using r g p by blast+
  then show ?thesis using r g p by blast
qed

text \<open>
  The claim as stated fails when the exception is raised inside the time grid
  builder: the start of the school day is not a time, \<^verbatim>\<open>int\<close> raises, the builder
  answers with the default slots, and the run returns a generated schedule with two
  entries.
\<close>

theorem builder_exception_is_not_an_error_schedule:
  "grid_setup (init_settings malformed_start_data) = Inl ValueError \<and>
   generate_schedule malformed_start_data
       (solving_env [(0, 0, 0, 0, 0, 0), (0, 0, 0, 0, 1, 1)]) =
     Some \<lparr>scheduleId = ''generated-schedule-1b9d6bcd'',
           entries =
             [\<lparr>e_id = ''entry-0'', e_day = ''MONDAY'', e_startTime = ''08:00'',
               e_endTime = ''09:00'', classId = Some ''class-1'', subjectId = ''math'',
               teacherId = Some ''teacher-1'', roomId = Some ''class-1'',
               roomName = Some ''Room Class 1''\<rparr>,
              \<lparr>e_id = ''entry-1'', e_day = ''TUESDAY'', e_startTime = ''09:15'',
               e_endTime = ''10:15'', classId = Some ''class-1'', subjectId = ''math'',
               teacherId = Some ''teacher-1'', roomId = Some ''class-1'',
               roomName = Some ''Room Class 1''\<rparr>]\<rparr> \<and>
   \<not> prefix ''error-schedule-'' ''generated-schedule-1b9d6bcd''"
  by code_simp

subsection \<open>The fallback schedule\<close>

text \<open>
  Claim C2. For every input on which the solver is reached, whenever its status is
  neither \<open>OPTIMAL\<close> nor \<open>FEASIBLE\<close>, \<^verbatim>\<open>generate_schedule\<close> returns the schedule of the
  fallback generator, and the id of that schedule starts with \<^verbatim>\<open>mock-schedule-\<close>.
\<close>

theorem fallback_when_solver_fails:
  assumes "scheduler_init data = Some (Inr sch)"
    and "build_model sch = Inr m"
    and "fst (solver env m) \<noteq> OPTIMAL" and "fst (solver env m) \<noteq> FEASIBLE"
  shows "generate_schedule data env = Some (generate_mock_schedule sch env) \<and>
         prefix ''mock-schedule-'' (scheduleId (generate_mock_schedule sch env))"
proof -
  have "prefix ''mock-schedule-'' (scheduleId (generate_mock_schedule sch env))"
    by (simp add: generate_mock_schedule_def Let_def split: prod.splits)
  moreover have "generate_schedule data env = Some (generate_mock_schedule sch env)"
    using assms
    by (cases "solver env m") (simp add: generate_schedule_def run_scheduler_def bind_e_def)
  ultimately show ?thesis by simp
qed

theorem fallback_when_solver_fails_witness:
  "generate_schedule small_data (failing_env (\<lambda>k. 0)) =
     Some (generate_mock_schedule small_scheduler (failing_env (\<lambda>k. 0))) \<and>
   prefix ''mock-schedule-''
     (scheduleId (generate_mock_schedule small_scheduler (failing_env (\<lambda>k. 0)))) \<and>
   generate_mock_schedule small_scheduler (failing_env (\<lambda>k. 0)) =
     \<lparr>scheduleId = ''mock-schedule-1b9d6bcd'',
      entries =
        [\<lparr>e_id = ''entry-0'', e_day = ''MONDAY'', e_startTime = ''09:00'',
          e_endTime = ''10:00'', classId = Some ''class-1'', subjectId = ''math'',
          teacherId = Some ''teacher-1'', roomId = Some ''room-1'', roomName = None\<rparr>,
         \<lparr>e_id = ''entry-1'', e_day = ''TUESDAY'', e_startTime = ''08:00'',
          e_endTime = ''09:00'', classId = Some ''class-1'', subjectId = ''math'',
          teacherId = Some ''teacher-1'', roomId = Some ''room-1'', roomName = None\<rparr>]\<rparr>"
proof -
  have s: "fst (solver (failing_env (\<lambda>k. 0)) small_model) \<noteq> OPTIMAL"
    "fst (solver (failing_env (\<lambda>k. 0)) small_model) \<noteq> FEASIBLE"
    by (simp_all add: failing_env_def)
  have ev: "generate_mock_schedule small_scheduler (failing_env (\<lambda>k. 0)) =
     \<lparr>scheduleId = ''mock-schedule-1b9d6bcd'',
      entries =
        [\<lparr>e_id = ''entry-0'', e_day = ''MONDAY'', e_startTime = ''09:00'',
          e_endTime = ''10:00'', classId = Some ''class-1'', subjectId = ''math'',
          teacherId = Some ''teacher-1'', roomId = Some ''room-1'', roomName = None\<rparr>,
         \<lparr>e_id = ''entry-1'', e_day = ''TUESDAY'', e_startTime = ''08:00'',
          e_endTime = ''09:00'', classId = Some ''class-1'', subjectId = ''math'',
          teacherId = Some ''teacher-1'', roomId = Some ''room-1'', roomName = None\<rparr>]\<rparr>"
    by code_simp
  show ?thesis
    using fallback_when_solver_fails [OF small_data_init small_scheduler_model s] ev
    by blast
qed

subsection \<open>An empty time grid\<close>

lemma product_Nil_right: "List.product xs [] = []"
  by (induction xs) auto

lemma concat_map_Nil: "concat (map (\<lambda>x. []) xs) = []"
  by (induction xs) auto

lemma create_variables_no_slots:
  assumes "time_slots sch = []"
  shows "create_variables sch = []"
proof -
  have "keys_for sch c subj = []" for c subj
    using assms by (simp add: keys_for_def Let_def concat_map_Nil split: option.splits)
  then show ?thesis by (simp add: create_variables_def dict_keys_def concat_map_Nil)
qed

lemma fill_schedule_no_slots: "fill_schedule sch env [] asg st = st"
  by (induction asg arbitrary: st) (auto simp: Let_def split: option.splits)

lemma mock_entries_no_slots:
  assumes "time_slots sch = []"
  shows "entries (generate_mock_schedule sch env) = []"
  using assms
  by (simp add: generate_mock_schedule_def shuffle_def product_Nil_right
      fill_schedule_no_slots enumerate_simps split: prod.splits)

text \<open>
  Claim C4 says that an input whose time grid is empty makes the core fail with a
  configuration error instead of building and solving the model. The program has no
  such check. As amended: when the time grid builder produces zero slots and no other
  stage raises, the model is built with no decision variables and the run does not
  fail; \<^verbatim>\<open>generate_schedule\<close> returns a schedule without entries, whose id starts with
  \<^verbatim>\<open>generated-schedule-\<close> when the solver reports \<open>OPTIMAL\<close> or \<open>FEASIBLE\<close> and with
  \<^verbatim>\<open>mock-schedule-\<close> otherwise.
\<close>

theorem zero_slots_give_empty_schedule:
  assumes "scheduler_init data = Some (Inr sch)"
    and "time_slots sch = []"
    and "build_model sch = Inr m"
  shows "assignment_vars m = [] \<and>
         (\<exists>s. run_scheduler data env = Some (Inr s) \<and>
              generate_schedule data env = Some s \<and> entries s = [] \<and>
              (if fst (solver env m) = OPTIMAL \<or> fst (solver env m) = FEASIBLE
               then prefix ''generated-schedule-'' (scheduleId s)
               else prefix ''mock-schedule-'' (scheduleId s)))"
proof -
  have v: "assignment_vars m = []"
    using assms(2,3) create_variables_no_slots [of sch]
    by (auto simp: build_model_def Let_def bind_e_def split: sum.splits)
  obtain st val where sv: "solver env m = (st, val)" by (cases "solver env m")
  show ?thesis
  proof (cases "st = OPTIMAL \<or> st = FEASIBLE")
    case True
    then have "run_scheduler data env =
        Some (Inr \<lparr>scheduleId = ''generated-schedule-'' @ take 8 (schedule_uuid env), entries = []\<rparr>)"
      using assms(1,3) sv v
      by (auto simp: run_scheduler_def bind_e_def extract_solution_def)
    then show ?thesis using True sv v by (simp add: generate_schedule_def)
  next
    case False
    then have "run_scheduler data env = Some (Inr (generate_mock_schedule sch env))"
      using assms(1,3) sv by (simp add: run_scheduler_def bind_e_def)
    then show ?thesis
      using False sv v mock_entries_no_slots [OF assms(2)]
      by (simp add: generate_schedule_def mock_schedule_id)
  qed
qed

text \<open>
  The claim as stated fails on an input that the validator accepts: the school day
  lasts thirty minutes, the grid is empty, and the run returns a normal (or a mock)
  schedule, not an error.
\<close>

theorem zero_slots_no_config_error:
  "feasible (validate_constraints zero_slot_data) \<and>
   generate_time_slots (init_settings zero_slot_data) = Some [] \<and>
   run_scheduler zero_slot_data (solving_env []) =
     Some (Inr \<lparr>scheduleId = ''generated-schedule-1b9d6bcd'', entries = []\<rparr>) \<and>
   run_scheduler zero_slot_data (failing_env (\<lambda>k. 0)) =
     Some (Inr \<lparr>scheduleId = ''mock-schedule-1b9d6bcd'', entries = []\<rparr>)"
  by code_simp

lemma zero_slot_init: "scheduler_init zero_slot_data = Some (Inr zero_slot_scheduler)"
  by code_simp

lemma zero_slot_model:
  "build_model zero_slot_scheduler = Inr \<lparr>assignment_vars = [], constraints = []\<rparr>"
  by code_simp

theorem zero_slots_give_empty_schedule_witness:
  "time_slots zero_slot_scheduler = [] \<and>
   (\<exists>s. run_scheduler zero_slot_data (solving_env []) = Some (Inr s) \<and>
        generate_schedule zero_slot_data (solving_env []) = Some s \<and> entries s = [] \<and>
        prefix ''generated-schedule-'' (scheduleId s)) \<and>
   (\<exists>s. run_scheduler zero_slot_data (failing_env (\<lambda>k. 0)) = Some (Inr s) \<and>
        generate_schedule zero_slot_data (failing_env (\<lambda>k. 0)) = Some s \<and> entries s = [] \<and>
        prefix ''mock-schedule-'' (scheduleId s))"
proof -
  have t: "time_slots zero_slot_scheduler = []"
    by (simp add: zero_slot_scheduler_def)
  have a: "fst (solver (solving_env []) \<lparr>assignment_vars = [], constraints = []\<rparr>) = OPTIMAL"
    by (simp add: solving_env_def)
  have b: "fst (solver (failing_env (\<lambda>k. 0)) \<lparr>assignment_vars = [], constraints = []\<rparr>) = INFEASIBLE"
    by (simp add: failing_env_def)
  show ?thesis
    using zero_slots_give_empty_schedule [OF zero_slot_init t zero_slot_model, of "solving_env []"]
      zero_slots_give_empty_schedule [OF zero_slot_init t zero_slot_model, of "failing_env (\<lambda>k. 0)"]
      t a b
    by simp
qed

subsection \<open>The default slots\<close>

text \<open>
  Claim C9 says that when the computation of the time grid builder raises, the builder
  returns the fixed list of six slots, whatever the configured hours and break
  windows, and scheduling proceeds with those slots. As amended: the builder returns
  the six default slots, and the constructor continues with them as the scheduler's
  time grid (it fails only for a missing required setting or a missing identifier, as
  it does for any other grid). Whether the later stages of the run complete is outside
  the amended claim.
\<close>

theorem default_slots_when_builder_raises:
  assumes "grid_setup (init_settings data) = Inl e"
  shows "generate_time_slots (init_settings data) = Some default_time_slots \<and>
         (if missing_settings (init_settings data) = []
          then scheduler_init data =
                 Some (init_with_slots data (init_settings data) default_time_slots)
          else scheduler_init data = Some (Inl ValueError)) \<and>
         (case scheduler_init data of
            Some (Inr sch) \<Rightarrow> time_slots sch = default_time_slots
          | _ \<Rightarrow> True)"
proof -
  have g: "generate_time_slots (init_settings data) = Some default_time_slots"
    using assms by (simp add: generate_time_slots_def)
  have i: "init_with_slots data st slots = Inr sch \<Longrightarrow> time_slots sch = slots" for st slots sch
    by (auto simp: init_with_slots_def bind_e_def Let_def split: sum.splits)
  show ?thesis
    using g i [of "init_settings data" default_time_slots]
    by (auto simp: scheduler_init_def Let_def split: sum.splits)
qed

theorem default_slots_when_builder_raises_witness:
  "grid_setup (init_settings malformed_start_data) = Inl ValueError \<and>
   generate_time_slots (init_settings malformed_start_data) = Some default_time_slots \<and>
   scheduler_init malformed_start_data = Some (Inr malformed_start_scheduler) \<and>
   time_slots malformed_start_scheduler =
     [(''08:00'', ''09:00''), (''09:15'', ''10:15''), (''10:30'', ''11:30''),
      (''11:45'', ''12:45''), (''13:30'', ''14:30''), (''14:45'', ''15:45'')]"
proof -
  have r: "grid_setup (init_settings malformed_start_data) = Inl ValueError"
    by code_simp
  have s: "scheduler_init malformed_start_data = Some (Inr malformed_start_scheduler)"
    by code_simp
  have t: "time_slots malformed_start_scheduler =
     [(''08:00'', ''09:00''), (''09:15'', ''10:15''), (''10:30'', ''11:30''),
      (''11:45'', ''12:45''), (''13:30'', ''14:30''), (''14:45'', ''15:45'')]"
    by (simp add: malformed_start_scheduler_def default_time_slots_def)
  show ?thesis
    using default_slots_when_builder_raises [OF r] r s t by simp
qed

text \<open>
  The claim as stated fails when the malformed time is the start of the lunch break,
  which the validator does not read: the builder falls back to the default slots, but
  \<^verbatim>\<open>_add_break_constraints\<close> parses the same string again outside any \<^verbatim>\<open>try\<close> block, the
  run raises before the solver is called, and \<^verbatim>\<open>generate_schedule\<close> returns the error
  schedule. Scheduling does not proceed with the default slots.
\<close>

theorem malformed_lunch_start_stops_generation:
  "feasible (validate_constraints malformed_lunch_data) \<and>
   grid_setup (init_settings malformed_lunch_data) = Inl ValueError \<and>
   generate_time_slots (init_settings malformed_lunch_data) = Some default_time_slots \<and>
   run_scheduler malformed_lunch_data (solving_env []) = Some (Inl ValueError) \<and>
   generate_schedule malformed_lunch_data (solving_env []) =
     Some \<lparr>scheduleId = ''error-schedule-9c5b94b1'', entries = []\<rparr>"
  by code_simp

subsection \<open>The fallback generator never double-books\<close>

lemma no_conflict_no_clash:
  assumes "\<not> list_ex (slot_conflict sch day time_slot class_id subject_id teacher) es"
    and "e_day new = day" "e_startTime new = fst time_slot" "classId new = class_id"
    and "subjectId new = subject_id" "teacherId new = t_id teacher"
    and "x \<in> set es"
  shows "\<not> clash x new"
proof -
  have "\<not> slot_conflict sch day time_slot class_id subject_id teacher x"
    using assms(1,7) by (auto simp: list_ex_iff)
  then show ?thesis
    using assms(2-6) by (auto simp: slot_conflict_def clash_def)
qed

lemma assign_slots_keeps_clash_free:
  "sorted_wrt (\<lambda>a b. \<not> clash a b) es \<Longrightarrow>
   sorted_wrt (\<lambda>a b. \<not> clash a b)
     (fst (assign_slots sch env class_id subject_id teacher slots h (es, k)))"
proof (induction slots arbitrary: h es k)
  case Nil
  then show ?case by simp
next
  case (Cons slot slots)
  obtain slot_idx day time_slot where s: "slot = (slot_idx, day, time_slot)"
    by (cases slot) auto
  show ?case
  proof (cases "h \<le> 0")
    case True
    then show ?thesis using Cons.prems by (simp add: s)
  next
    case h: False
    show ?thesis
    proof (cases "list_ex (slot_conflict sch day time_slot class_id subject_id teacher) es")
      case True
      then show ?thesis using h Cons.IH [OF Cons.prems] by (simp add: s)
    next
      case False
      have "sorted_wrt (\<lambda>a b. \<not> clash a b) (es @ [new])"
        if "e_day new = day" "e_startTime new = fst time_slot" "classId new = class_id"
          "subjectId new = subject_id" "teacherId new = t_id teacher" for new
        using Cons.prems no_conflict_no_clash [OF False that]
        by (simp add: sorted_wrt_append)
      then show ?thesis
        using h False by (auto simp: s Let_def intro!: Cons.IH)
    qed
  qed
qed

lemma fill_schedule_keeps_clash_free:
  "sorted_wrt (\<lambda>a b. \<not> clash a b) (fst st) \<Longrightarrow>
   sorted_wrt (\<lambda>a b. \<not> clash a b) (fst (fill_schedule sch env slots asg st))"
proof (induction asg arbitrary: st)
  case Nil
  then show ?case by simp
next
  case (Cons a asg)
  obtain class_id subject_id teacher where a: "a = ((class_id, subject_id), teacher)"
    by (cases a) auto
  obtain es k where st: "st = (es, k)" by (cases st)
  have "sorted_wrt (\<lambda>a b. \<not> clash a b)
          (fst (assign_slots sch env class_id subject_id teacher slots h st))" for h
    using Cons.prems assign_slots_keeps_clash_free [of es] by (simp add: st)
  then show ?case
    using Cons.prems by (auto simp: a Let_def split: option.splits intro!: Cons.IH)
qed

lemma mock_schedule_clash_free:
  "sorted_wrt (\<lambda>a b. \<not> clash a b) (entries (generate_mock_schedule sch env))"
proof -
  obtain asg k1 where a: "assign_teachers sch env (classes sch) ([], 0) = (asg, k1)"
    by (cases "assign_teachers sch env (classes sch) ([], 0)")
  obtain slots k2 where
    b: "shuffle (random env) (List.product (days sch) (time_slots sch)) k1 = (slots, k2)"
    by (cases "shuffle (random env) (List.product (days sch) (time_slots sch)) k1")
  have "entries (generate_mock_schedule sch env) =
          fst (fill_schedule sch env (enumerate 0 slots) asg ([], k2))"
    by (simp add: generate_mock_schedule_def a b split: prod.splits)
  moreover have "sorted_wrt (\<lambda>a b. \<not> clash a b)
                   (fst (fill_schedule sch env (enumerate 0 slots) asg ([], k2)))"
    by (rule fill_schedule_keeps_clash_free) simp
  ultimately show ?thesis by simp
qed

text \<open>
  Claim C6. In every schedule returned by the fallback generator, any two entries at
  different positions do not share day, start time and teacher; do not share day,
  start time and class; do not share class, day and subject; and so in particular
  are never two lessons of one subject for one class on one day in adjacent slots of
  the time grid.
\<close>

theorem mock_schedule_entries_do_not_clash:
  assumes "i \<noteq> j"
    and "i < length (entries (generate_mock_schedule sch env))"
    and "j < length (entries (generate_mock_schedule sch env))"
  shows "(let a = entries (generate_mock_schedule sch env) ! i;
              b = entries (generate_mock_schedule sch env) ! j
          in \<not> (e_day a = e_day b \<and> e_startTime a = e_startTime b \<and> teacherId a = teacherId b) \<and>
             \<not> (e_day a = e_day b \<and> e_startTime a = e_startTime b \<and> classId a = classId b) \<and>
             \<not> (classId a = classId b \<and> e_day a = e_day b \<and> subjectId a = subjectId b) \<and>
             \<not> (classId a = classId b \<and> e_day a = e_day b \<and> subjectId a = subjectId b \<and>
                adjacent_slots sch a b))"
proof -
  let ?es = "entries (generate_mock_schedule sch env)"
  have ordered: "\<not> clash (?es ! m) (?es ! n)" if "m < n" "n < length ?es" for m n
    using mock_schedule_clash_free [of sch env] that
    by (simp add: sorted_wrt_iff_nth_less)
  have sym: "clash a b = clash b a" for a b
    by (auto simp: clash_def)
  have "\<not> clash (?es ! i) (?es ! j)"
  proof (cases "i < j")
    case True
    then show ?thesis using ordered assms(3) by simp
  next
    case False
    then have "j < i" using assms(1) by simp
    then show ?thesis using ordered [of j i] assms(2) sym by simp
  qed
  then show ?thesis by (auto simp: clash_def Let_def)
qed

lemma small_mock_schedule:
  "entries (generate_mock_schedule small_scheduler (failing_env (\<lambda>k. 0))) =
     [\<lparr>e_id = ''entry-0'', e_day = ''MONDAY'', e_startTime = ''09:00'',
       e_endTime = ''10:00'', classId = Some ''class-1'', subjectId = ''math'',
       teacherId = Some ''teacher-1'', roomId = Some ''room-1'', roomName = None\<rparr>,
      \<lparr>e_id = ''entry-1'', e_day = ''TUESDAY'', e_startTime = ''08:00'',
       e_endTime = ''09:00'', classId = Some ''class-1'', subjectId = ''math'',
       teacherId = Some ''teacher-1'', roomId = Some ''room-1'', roomName = None\<rparr>]"
  by code_simp

theorem mock_schedule_entries_do_not_clash_witness:
  "(0::nat) \<noteq> 1 \<and>
   0 < length (entries (generate_mock_schedule small_scheduler (failing_env (\<lambda>k. 0)))) \<and>
   1 < length (entries (generate_mock_schedule small_scheduler (failing_env (\<lambda>k. 0)))) \<and>
   (let a = entries (generate_mock_schedule small_scheduler (failing_env (\<lambda>k. 0))) ! 0;
        b = entries (generate_mock_schedule small_scheduler (failing_env (\<lambda>k. 0))) ! 1
    in \<not> (e_day a = e_day b \<and> e_startTime a = e_startTime b \<and> teacherId a = teacherId b) \<and>
       \<not> (e_day a = e_day b \<and> e_startTime a = e_startTime b \<and> classId a = classId b) \<and>
       \<not> (classId a = classId b \<and> e_day a = e_day b \<and> subjectId a = subjectId b) \<and>
       \<not> (classId a = classId b \<and> e_day a = e_day b \<and> subjectId a = subjectId b \<and>
          adjacent_slots small_scheduler a b)) \<and>
   classId (entries (generate_mock_schedule small_scheduler (failing_env (\<lambda>k. 0))) ! 0) =
   classId (entries (generate_mock_schedule small_scheduler (failing_env (\<lambda>k. 0))) ! 1)"
proof -
  have l: "1 < length (entries (generate_mock_schedule small_scheduler (failing_env (\<lambda>k. 0))))"
    by (simp add: small_mock_schedule)
  have c: "classId (entries (generate_mock_schedule small_scheduler (failing_env (\<lambda>k. 0))) ! 0) =
   classId (entries (generate_mock_schedule small_scheduler (failing_env (\<lambda>k. 0))) ! 1)"
    by (simp add: small_mock_schedule)
  have l0: "0 < length (entries (generate_mock_schedule small_scheduler (failing_env (\<lambda>k. 0))))"
    by (simp add: small_mock_schedule)
  have n: "(0::nat) \<noteq> 1" by simp
  show ?thesis
    using mock_schedule_entries_do_not_clash [OF n l0 l] n l0 l c
    by blast
qed

subsection \<open>Reproducibility\<close>

lemma make_entry_env:
  "map_sum id entry_tuple (make_entry sch env1 key n1) =
   map_sum id entry_tuple (make_entry sch env2 key n2)"
  by (cases key)
     (auto simp: make_entry_def bind_e_def entry_tuple_def split: sum.splits)

lemma extract_entries_env:
  "map entry_tuple es1 = map entry_tuple es2 \<Longrightarrow>
   map_sum id (map entry_tuple) (extract_entries sch env1 val ks es1) =
   map_sum id (map entry_tuple) (extract_entries sch env2 val ks es2)"
proof (induction ks arbitrary: es1 es2)
  case Nil
  then show ?case by simp
next
  case (Cons key ks)
  have len: "length es1 = length es2"
    using Cons.prems by (metis length_map)
  show ?case
  proof (cases "val key = 1")
    case False
    then show ?thesis using Cons.IH [OF Cons.prems] by simp
  next
    case True
    from make_entry_env [of sch env1 key "length es1" env2 "length es2"]
    consider (err) e where "make_entry sch env1 key (length es1) = Inl e"
        "make_entry sch env2 key (length es2) = Inl e"
      | (ok) a b where "make_entry sch env1 key (length es1) = Inr a"
        "make_entry sch env2 key (length es2) = Inr b" "entry_tuple a = entry_tuple b"
      by (cases "make_entry sch env1 key (length es1)";
          cases "make_entry sch env2 key (length es2)") auto
    then show ?thesis
    proof cases
      case err
      then show ?thesis using True by (simp add: bind_e_def)
    next
      case ok
      have "map entry_tuple (es1 @ [a]) = map entry_tuple (es2 @ [b])"
        using Cons.prems ok(3) by simp
      from Cons.IH [OF this] show ?thesis using True ok(1,2) by (simp add: bind_e_def)
    qed
  qed
qed

lemma mock_prefix:
  "prefix ''mock-schedule-'' (scheduleId (generate_mock_schedule sch env))"
  "\<not> prefix ''generated-schedule-'' (scheduleId (generate_mock_schedule sch env))"
  "\<not> prefix ''error-schedule-'' (scheduleId (generate_mock_schedule sch env))"
  by (simp_all add: mock_schedule_id)

lemma error_prefix:
  "prefix ''error-schedule-'' (scheduleId (error_schedule env))"
  "\<not> prefix ''generated-schedule-'' (scheduleId (error_schedule env))"
  "\<not> prefix ''mock-schedule-'' (scheduleId (error_schedule env))"
  "entries (error_schedule env) = []"
  by (simp_all add: error_schedule_def)

text \<open>
  Claim C8 says that two runs on the same input with the same solver seed give the same
  schedule up to the random entry ids. The fallback generator draws its teachers and
  the order of its slots from numpy's process-wide random generator, which the program
  never seeds. As amended: two runs on the same input in which the solver gives the
  same answer return schedules whose ids carry the same prefix; and unless that prefix
  is \<^verbatim>\<open>mock-schedule-\<close> (the fallback generator ran), the two schedules hold the same
  multiset of (day, startTime, endTime, classId, subjectId, teacherId, roomId).
\<close>

theorem generate_reproducible_except_fallback:
  assumes "solver env1 = solver env2"
    and "generate_schedule data env1 = Some s1"
    and "generate_schedule data env2 = Some s2"
  shows "same_kind s1 s2 \<and>
         (\<not> prefix ''mock-schedule-'' (scheduleId s1) \<longrightarrow>
            mset (map entry_tuple (entries s1)) = mset (map entry_tuple (entries s2)))"
proof (cases "scheduler_init data")
  case None
  then show ?thesis using assms(2) by (simp add: generate_schedule_def run_scheduler_def)
next
  case (Some r)
  show ?thesis
  proof (cases r)
    case (Inl e)
    then have "s1 = error_schedule env1" "s2 = error_schedule env2"
      using Some assms(2,3) by (auto simp: generate_schedule_def run_scheduler_def bind_e_def)
    then show ?thesis by (simp add: same_kind_def error_prefix)
  next
    case (Inr sch)
    show ?thesis
    proof (cases "build_model sch")
      case (Inl e)
      then have "s1 = error_schedule env1" "s2 = error_schedule env2"
        using Some Inr assms(2,3)
        by (auto simp: generate_schedule_def run_scheduler_def bind_e_def)
      then show ?thesis by (simp add: same_kind_def error_prefix)
    next
      case m: (Inr m)
      obtain st val where sv: "solver env1 m = (st, val)" by (cases "solver env1 m")
      then have sv2: "solver env2 m = (st, val)" using assms(1) by simp
      show ?thesis
      proof (cases "st = OPTIMAL \<or> st = FEASIBLE")
        case False
        then have "s1 = generate_mock_schedule sch env1" "s2 = generate_mock_schedule sch env2"
          using Some Inr m sv sv2 assms(2,3)
          by (auto simp: generate_schedule_def run_scheduler_def bind_e_def)
        then show ?thesis by (simp add: same_kind_def mock_prefix)
      next
        case True
        let ?x1 = "extract_entries sch env1 val (assignment_vars m) []"
        let ?x2 = "extract_entries sch env2 val (assignment_vars m) []"
        have eq: "map_sum id (map entry_tuple) ?x1 = map_sum id (map entry_tuple) ?x2"
          by (rule extract_entries_env) simp
        have g1: "s1 = (case ?x1 of Inl e \<Rightarrow> error_schedule env1
                    | Inr es \<Rightarrow> \<lparr>scheduleId = ''generated-schedule-'' @ take 8 (schedule_uuid env1),
                                 entries = es\<rparr>)"
          using Some Inr m sv True assms(2)
          by (auto simp: generate_schedule_def run_scheduler_def bind_e_def extract_solution_def
              split: sum.splits)
        have g2: "s2 = (case ?x2 of Inl e \<Rightarrow> error_schedule env2
                    | Inr es \<Rightarrow> \<lparr>scheduleId = ''generated-schedule-'' @ take 8 (schedule_uuid env2),
                                 entries = es\<rparr>)"
          using Some Inr m sv2 True assms(3)
          by (auto simp: generate_schedule_def run_scheduler_def bind_e_def extract_solution_def
              split: sum.splits)
        show ?thesis
          using eq by (cases ?x1; cases ?x2) (auto simp: g1 g2 same_kind_def error_prefix)
      qed
    qed
  qed
qed

text \<open>
  The model of \<open>infeasible_data\<close> has no satisfying assignment, so a solver that finds
  nothing is the solver's right answer on it.
\<close>

lemma infeasible_model_unsatisfiable: "\<not> satisfies infeasible_model val"
proof
  assume "satisfies infeasible_model val"
  then have b: "val (0, 0, 0, 0, 0, 0) \<le> 1" "val (0, 0, 0, 0, 0, 1) \<le> 1"
      "val (0, 0, 0, 0, 1, 0) \<le> 1" "val (0, 0, 0, 0, 1, 1) \<le> 1"
    and s: "val (0, 0, 0, 0, 0, 0) + val (0, 0, 0, 0, 0, 1) +
            val (0, 0, 0, 0, 1, 0) + val (0, 0, 0, 0, 1, 1) = 5"
    by (auto simp: satisfies_def infeasible_model_def)
  then show False by linarith
qed

lemma infeasible_data_model:
  "scheduler_init infeasible_data = Some (Inr infeasible_scheduler)"
  "build_model infeasible_scheduler = Inr infeasible_model"
  by code_simp+

text \<open>
  The claim as stated fails on the fallback path: on an input that the validator
  accepts and that has no solution, two runs with the same solver answer and different
  random draws place the Monday lesson in different slots.
\<close>

theorem fallback_depends_on_random_draws:
  "feasible (validate_constraints infeasible_data) \<and>
   solver (failing_env (\<lambda>k. 0)) = solver (failing_env (\<lambda>k. 1)) \<and>
   map_option (\<lambda>s. (scheduleId s, map entry_tuple (entries s)))
     (generate_schedule infeasible_data (failing_env (\<lambda>k. 0))) =
     Some (''mock-schedule-1b9d6bcd'',
           [(''MONDAY'', ''09:00'', ''10:00'', Some ''class-1'', ''math'', Some ''teacher-1'',
             Some ''room-1''),
            (''TUESDAY'', ''08:00'', ''09:00'', Some ''class-1'', ''math'', Some ''teacher-1'',
             Some ''room-1'')]) \<and>
   map_option (\<lambda>s. (scheduleId s, map entry_tuple (entries s)))
     (generate_schedule infeasible_data (failing_env (\<lambda>k. 1))) =
     Some (''mock-schedule-1b9d6bcd'',
           [(''MONDAY'', ''08:00'', ''09:00'', Some ''class-1'', ''math'', Some ''teacher-1'',
             Some ''room-1''),
            (''TUESDAY'', ''08:00'', ''09:00'', Some ''class-1'', ''math'', Some ''teacher-1'',
             Some ''room-1'')]) \<and>
   mset [(''MONDAY'', ''09:00'', ''10:00'', Some ''class-1'', ''math'', Some ''teacher-1'',
          Some ''room-1''),
         (''TUESDAY'', ''08:00'', ''09:00'', Some ''class-1'', ''math'', Some ''teacher-1'',
          Some ''room-1'')] \<noteq>
   mset [(''MONDAY'', ''08:00'', ''09:00'', Some ''class-1'', ''math'', Some ''teacher-1'',
          Some ''room-1''),
         (''TUESDAY'', ''08:00'', ''09:00'', Some ''class-1'', ''math'', Some ''teacher-1'',
          Some ''room-1'')]"
proof -
  have v: "feasible (validate_constraints infeasible_data)"
    by code_simp
  have s: "solver (failing_env (\<lambda>k. 0)) = solver (failing_env (\<lambda>k. 1))"
    by (simp add: failing_env_def)
  have a: "map_option (\<lambda>s. (scheduleId s, map entry_tuple (entries s)))
     (generate_schedule infeasible_data (failing_env (\<lambda>k. 0))) =
     Some (''mock-schedule-1b9d6bcd'',
           [(''MONDAY'', ''09:00'', ''10:00'', Some ''class-1'', ''math'', Some ''teacher-1'',
             Some ''room-1''),
            (''TUESDAY'', ''08:00'', ''09:00'', Some ''class-1'', ''math'', Some ''teacher-1'',
             Some ''room-1'')])"
    by code_simp
  have b: "map_option (\<lambda>s. (scheduleId s, map entry_tuple (entries s)))
     (generate_schedule infeasible_data (failing_env (\<lambda>k. 1))) =
     Some (''mock-schedule-1b9d6bcd'',
           [(''MONDAY'', ''08:00'', ''09:00'', Some ''class-1'', ''math'', Some ''teacher-1'',
             Some ''room-1''),
            (''TUESDAY'', ''08:00'', ''09:00'', Some ''class-1'', ''math'', Some ''teacher-1'',
             Some ''room-1'')])"
    by code_simp
  have c: "mset [(''MONDAY'', ''09:00'', ''10:00'', Some ''class-1'', ''math'', Some ''teacher-1'',
          Some ''room-1''),
         (''TUESDAY'', ''08:00'', ''09:00'', Some ''class-1'', ''math'', Some ''teacher-1'',
          Some ''room-1'')] \<noteq>
   mset [(''MONDAY'', ''08:00'', ''09:00'', Some ''class-1'', ''math'', Some ''teacher-1'',
          Some ''room-1''),
         (''TUESDAY'', ''08:00'', ''09:00'', Some ''class-1'', ''math'', Some ''teacher-1'',
          Some ''room-1'')]"
    by simp
  show ?thesis using v s a b c by blast
qed

lemma small_data_solved:
  "generate_schedule small_data (solving_env [(0, 0, 0, 0, 0, 0), (0, 0, 0, 0, 1, 1)]) =
     Some \<lparr>scheduleId = ''generated-schedule-1b9d6bcd'',
           entries =
             [\<lparr>e_id = ''entry-0'', e_day = ''MONDAY'', e_startTime = ''08:00'',
               e_endTime = ''09:00'', classId = Some ''class-1'', subjectId = ''math'',
               teacherId = Some ''teacher-1'', roomId = Some ''class-1'',
               roomName = Some ''Room Class 1''\<rparr>,
              \<lparr>e_id = ''entry-1'', e_day = ''TUESDAY'', e_startTime = ''09:00'',
               e_endTime = ''10:00'', classId = Some ''class-1'', subjectId = ''math'',
               teacherId = Some ''teacher-1'', roomId = Some ''class-1'',
               roomName = Some ''Room Class 1''\<rparr>]\<rparr>"
  by code_simp

lemma small_data_solved_again:
  "generate_schedule small_data
     (second_run (solving_env [(0, 0, 0, 0, 0, 0), (0, 0, 0, 0, 1, 1)])) =
     Some \<lparr>scheduleId = ''generated-schedule-6ec0bd7f'',
           entries =
             [\<lparr>e_id = ''other-0'', e_day = ''MONDAY'', e_startTime = ''08:00'',
               e_endTime = ''09:00'', classId = Some ''class-1'', subjectId = ''math'',
               teacherId = Some ''teacher-1'', roomId = Some ''class-1'',
               roomName = Some ''Room Class 1''\<rparr>,
              \<lparr>e_id = ''other-1'', e_day = ''TUESDAY'', e_startTime = ''09:00'',
               e_endTime = ''10:00'', classId = Some ''class-1'', subjectId = ''math'',
               teacherId = Some ''teacher-1'', roomId = Some ''class-1'',
               roomName = Some ''Room Class 1''\<rparr>]\<rparr>"
  by code_simp

theorem generate_reproducible_except_fallback_witness:
  "solver (solving_env [(0, 0, 0, 0, 0, 0), (0, 0, 0, 0, 1, 1)]) =
     solver (second_run (solving_env [(0, 0, 0, 0, 0, 0), (0, 0, 0, 0, 1, 1)])) \<and>
   (\<exists>s1 s2.
      generate_schedule small_data (solving_env [(0, 0, 0, 0, 0, 0), (0, 0, 0, 0, 1, 1)])
        = Some s1 \<and>
      generate_schedule small_data
        (second_run (solving_env [(0, 0, 0, 0, 0, 0), (0, 0, 0, 0, 1, 1)])) = Some s2 \<and>
      scheduleId s1 \<noteq> scheduleId s2 \<and> map e_id (entries s1) \<noteq> map e_id (entries s2) \<and>
      \<not> prefix ''mock-schedule-'' (scheduleId s1) \<and>
      same_kind s1 s2 \<and>
      mset (map entry_tuple (entries s1)) = mset (map entry_tuple (entries s2)))"
proof -
  have s: "solver (solving_env [(0, 0, 0, 0, 0, 0), (0, 0, 0, 0, 1, 1)]) =
     solver (second_run (solving_env [(0, 0, 0, 0, 0, 0), (0, 0, 0, 0, 1, 1)]))"
    by (simp add: solving_env_def second_run_def)
  show ?thesis
    using generate_reproducible_except_fallback [OF s small_data_solved small_data_solved_again] s
      small_data_solved small_data_solved_again
    by simp
qed

subsection \<open>Weekly hours of a class and a required subject\<close>

text \<open>
  What the constructor and the variable factory produce: the index dictionaries, and
  the decision variables as a set.
\<close>

lemma all_ids_Inr:
  "all_ids xs = Inr ys \<Longrightarrow> xs = map Some ys"
proof (induction xs arbitrary: ys)
  case Nil
  then show ?case by simp
next
  case (Cons x xs)
  then show ?case
    by (auto simp: bind_e_def getitem_def split: option.splits sum.splits)
qed

lemma index_dict_Some:
  assumes "index_dict ids k = Some i"
  shows "i < length ids \<and> ids ! i = k"
proof -
  have "(k, i) \<in> set (zip ids [0 ..< length ids])"
    using assms map_of_SomeD [of "rev (zip ids [0 ..< length ids])" k i]
    by (simp add: index_dict_def)
  then show ?thesis
    by (auto simp: set_zip)
qed

lemma index_dict_defined:
  assumes "k \<in> set ids"
  shows "\<exists>i. index_dict ids k = Some i"
proof -
  have "map fst (rev (zip ids [0 ..< length ids])) = rev ids"
    by (simp add: rev_map [symmetric])
  then have "k \<in> fst ` set (rev (zip ids [0 ..< length ids]))"
    using assms by (metis set_map set_rev)
  then show ?thesis
    unfolding index_dict_def by (metis map_of_eq_None_iff not_None_eq)
qed

lemma dict_keys_props: "set (dict_keys xs) = set xs" "distinct (dict_keys xs)"
  by (simp_all add: dict_keys_def)

lemma valid_teachers_bound: "t \<in> set (valid_teachers sch subj) \<Longrightarrow> t < length (teachers sch)"
  by (simp add: valid_teachers_def)

lemma keys_for_mem:
  "(c', s, t, r, d, ts) \<in> set (keys_for sch c subj) \<longleftrightarrow>
     c' = c \<and> subject_indices sch subj = Some s \<and> t \<in> set (valid_teachers sch subj) \<and>
     d < length (days sch) \<and> ts < length (time_slots sch) \<and>
     (if use_room_constraints sch then r < length (rooms sch) else r = 0)"
  by (auto simp: keys_for_def Let_def split: option.splits intro!: bexI image_eqI)

lemma create_variables_mem:
  "(c, s, t, r, d, ts) \<in> set (create_variables sch) \<longleftrightarrow>
     c < length (classes sch) \<and>
     (\<exists>subj \<in> set (get_or (requiredSubjects (classes sch ! c)) []).
        subject_indices sch subj = Some s \<and> t \<in> set (valid_teachers sch subj)) \<and>
     d < length (days sch) \<and> ts < length (time_slots sch) \<and>
     (if use_room_constraints sch then r < length (rooms sch) else r = 0)"
  by (auto simp: create_variables_def dict_keys_props keys_for_mem)

lemma create_variables_distinct: "distinct (create_variables sch)"
  by (simp add: create_variables_def dict_keys_props)

text \<open>
  The variables that the two hours constraints sum over, and the entries that the
  extractor writes for them.
\<close>

lemma pair_keys_set:
  "set (pair_keys sch vars c s) =
     {k \<in> set vars. \<exists>t r d ts. k = (c, s, t, r, d, ts) \<and> t < length (teachers sch) \<and>
        r < length (rooms sch) \<and> d < length (days sch) \<and> ts < length (time_slots sch)}"
  by (auto simp: pair_keys_def)

lemma pair_keys_distinct: "distinct (pair_keys sch vars c s)"
proof -
  have "inj (\<lambda>(t, r, d, ts). (c, s, t :: nat, r :: nat, d :: nat, ts :: nat))"
    by (auto simp: inj_on_def)
  then show ?thesis
    unfolding pair_keys_def
    by (intro distinct_filter) (simp add: distinct_map distinct_product inj_on_def)
qed

lemma pair_keys_of_variables:
  assumes "rooms sch \<noteq> []"
  shows "set (pair_keys sch (create_variables sch) c s) =
           {k \<in> set (create_variables sch). fst k = c \<and> fst (snd k) = s}"
proof -
  have "t < length (teachers sch) \<and> r < length (rooms sch) \<and> d < length (days sch) \<and>
        ts < length (time_slots sch)"
    if "(c, s, t, r, d, ts) \<in> set (create_variables sch)" for t r d ts
    using that assms valid_teachers_bound [of t sch]
    by (auto simp: create_variables_mem split: if_splits)
  then show ?thesis
    unfolding pair_keys_set by auto
qed

lemma sum_of_booleans:
  "list_all (\<lambda>k. val k = 0 \<or> val k = (1::int)) ks \<Longrightarrow>
   sum_list (map val ks) = int (length (filter (\<lambda>k. val k = 1) ks))"
  by (induction ks) auto

lemma make_entry_fields:
  assumes "make_entry sch env (c, s, t, r, d, ts) n = Inr e"
  shows "c < length (class_ids sch) \<and> s < length (subject_ids sch) \<and>
         classId e = Some (class_ids sch ! c) \<and> subjectId e = subject_ids sch ! s"
  using assms
  by (auto simp: make_entry_def bind_e_def dict_at_def split: sum.splits if_splits)

lemma extract_entries_count:
  assumes "extract_entries sch env val ks es = Inr es'"
  shows "length (filter (\<lambda>e. classId e = Some cid \<and> subjectId e = sid) es') =
         length (filter (\<lambda>e. classId e = Some cid \<and> subjectId e = sid) es) +
         length (filter (\<lambda>k. val k = 1 \<and> class_ids sch ! fst k = cid \<and>
                             subject_ids sch ! fst (snd k) = sid) ks)"
  using assms
proof (induction ks arbitrary: es)
  case Nil
  then show ?case by simp
next
  case (Cons key ks)
  obtain c s t r d ts where key: "key = (c, s, t, r, d, ts)" by (cases key)
  show ?case
  proof (cases "val key = 1")
    case False
    then show ?thesis using Cons by simp
  next
    case True
    then obtain e where e: "make_entry sch env key (length es) = Inr e"
      and rest: "extract_entries sch env val ks (es @ [e]) = Inr es'"
      using Cons.prems by (auto simp: bind_e_def split: sum.splits)
    from make_entry_fields [OF e [unfolded key]]
    have f: "classId e = Some (class_ids sch ! c)" "subjectId e = subject_ids sch ! s"
      by simp_all
    show ?thesis
      using Cons.IH [OF rest] True f by (auto simp: key)
  qed
qed

lemma distinct_same_set_length:
  "distinct xs \<Longrightarrow> distinct ys \<Longrightarrow> set xs = set ys \<Longrightarrow> length xs = length ys"
  by (metis distinct_card)

text \<open>What the validator guarantees about the scheduler object, and where the hours
  constraint of a class and a subject sits in the model.\<close>

lemma init_with_slots_fields:
  assumes "init_with_slots data st slots = Inr sch"
  shows "teachers sch = get_or (d_teachers data) []"
    "classes sch = get_or (d_classes data) []"
    "subjects sch = get_or (d_subjects data) []"
    "rooms sch = get_or (d_rooms data) []"
    "map c_id (classes sch) = map Some (class_ids sch)"
    "map s_id (subjects sch) = map Some (subject_ids sch)"
  using assms
  by (auto simp: init_with_slots_def bind_e_def Let_def split: sum.splits dest: all_ids_Inr)

lemma scheduler_init_fields:
  assumes "scheduler_init data = Some (Inr sch)"
  shows "teachers sch = get_or (d_teachers data) []"
    "classes sch = get_or (d_classes data) []"
    "subjects sch = get_or (d_subjects data) []"
    "rooms sch = get_or (d_rooms data) []"
    "map c_id (classes sch) = map Some (class_ids sch)"
    "map s_id (subjects sch) = map Some (subject_ids sch)"
proof -
  obtain slots where "init_with_slots data (init_settings data) slots = Inr sch"
    using assms by (auto simp: scheduler_init_def Let_def split: if_splits option.splits)
  from init_with_slots_fields [OF this] show
    "teachers sch = get_or (d_teachers data) []"
    "classes sch = get_or (d_classes data) []"
    "subjects sch = get_or (d_subjects data) []"
    "rooms sch = get_or (d_rooms data) []"
    "map c_id (classes sch) = map Some (class_ids sch)"
    "map s_id (subjects sch) = map Some (subject_ids sch)"
    by simp_all
qed

lemma validated_rooms_and_subjects:
  assumes "validate_issues data = []"
  shows "get_or (d_rooms data) [] \<noteq> []"
    and "c < length (get_or (d_classes data) []) \<Longrightarrow>
         subj \<in> set (get_or (requiredSubjects (get_or (d_classes data) [] ! c)) []) \<Longrightarrow>
         \<exists>x \<in> set (get_or (d_subjects data) []). s_id x = Some subj"
proof -
  let ?cs = "get_or (d_classes data) []"
  let ?ss = "get_or (d_subjects data) []"
  have a: "?cs \<noteq> []" "room_count_issues (get_or (d_rooms data) []) ?cs = []"
    and r: "concat (map (class_reference_issues (known_subject_ids ?ss)) (enumerate 0 ?cs)) = []"
    using assms by (simp_all add: validate_issues_def Let_def split: if_splits)
  show "get_or (d_rooms data) [] \<noteq> []"
    using a by (auto simp: room_count_issues_def split: if_splits)
  assume c: "c < length ?cs" and s: "subj \<in> set (get_or (requiredSubjects (?cs ! c)) [])"
  have "(c, ?cs ! c) \<in> set (enumerate 0 ?cs)"
    using c by (simp add: in_set_enumerate_eq)
  then have "class_reference_issues (known_subject_ids ?ss) (c, ?cs ! c) = []"
    using r by auto
  then have "subj \<in> known_subject_ids ?ss"
    using s by (auto simp: class_reference_issues_def split: if_splits)
  then show "\<exists>x \<in> set ?ss. s_id x = Some subj"
    by (auto simp: known_subject_ids_def falsy_def get_or_def split: if_splits option.splits)
qed

lemma in_concat_mapI: "x \<in> set xs \<Longrightarrow> y \<in> set (f x) \<Longrightarrow> y \<in> set (concat (map f xs))"
  by auto

lemma consistency_constraint_in_model:
  assumes "c < length (classes sch)"
    and "subj \<in> set (get_or (requiredSubjects (classes sch ! c)) [])"
    and "subject_indices sch subj = Some s"
    and "valid_teachers sch subj \<noteq> []"
    and "pair_keys sch vars c s \<noteq> []"
  shows "SumEq (pair_keys sch vars c s) (get_or (hoursPerWeek (subjects sch ! s)) 0)
           \<in> set (add_teacher_consistency_hours sch vars)"
  unfolding add_teacher_consistency_hours_def
  apply (rule in_concat_mapI [where x = c])
   apply (simp add: assms(1))
  apply (rule in_concat_mapI [where x = subj])
   apply (rule assms(2))
  apply (simp add: assms(3,4,5) Let_def)
  done

lemma subject_hours_constraint_in_model:
  assumes "c < length (classes sch)"
    and "subj \<in> set (get_or (requiredSubjects (classes sch ! c)) [])"
    and "subject_indices sch subj = Some s"
    and "0 < get_or (hoursPerWeek (subjects sch ! s)) 0"
    and "pair_keys sch vars c s \<noteq> []"
  shows "SumEq (pair_keys sch vars c s) (get_or (hoursPerWeek (subjects sch ! s)) 0)
           \<in> set (add_subject_hours_constraint sch vars)"
  unfolding add_subject_hours_constraint_def
  apply (rule in_concat_mapI [where x = c])
   apply (simp add: assms(1))
  apply (rule in_concat_mapI [where x = subj])
   apply (rule assms(2))
  using assms(4) apply (simp add: assms(3,5) Let_def)
  done

lemma count_of_pair:
  assumes init: "scheduler_init data = Some (Inr sch)"
    and rooms: "rooms sch \<noteq> []"
    and dist: "distinct (class_ids sch)"
    and c: "c < length (classes sch)"
    and idx: "subject_indices sch subj = Some s"
  shows "length (filter (\<lambda>k. val k = 1 \<and> class_ids sch ! fst k = class_ids sch ! c \<and>
                            subject_ids sch ! fst (snd k) = subj) (create_variables sch)) =
         length (filter (\<lambda>k. val k = 1) (pair_keys sch (create_variables sch) c s))"
proof (rule distinct_same_set_length)
  let ?vars = "create_variables sch"
  show "distinct (filter (\<lambda>k. val k = 1 \<and> class_ids sch ! fst k = class_ids sch ! c \<and>
                            subject_ids sch ! fst (snd k) = subj) ?vars)"
    by (simp add: create_variables_distinct)
  show "distinct (filter (\<lambda>k. val k = 1) (pair_keys sch ?vars c s))"
    by (simp add: pair_keys_distinct)
  have len: "length (class_ids sch) = length (classes sch)"
    using scheduler_init_fields(5) [OF init] by (metis length_map)
  have sid: "subject_ids sch ! s = subj"
    using idx index_dict_Some [of "subject_ids sch" subj s] by (simp add: subject_indices_def)
  have "(class_ids sch ! c' = class_ids sch ! c \<and> subject_ids sch ! s' = subj) \<longleftrightarrow>
        (c' = c \<and> s' = s)"
    if k: "(c', s', t, r, d, ts) \<in> set ?vars" for c' s' t r d ts
  proof -
    from k have c': "c' < length (classes sch)"
      and "\<exists>subj'. subject_indices sch subj' = Some s'"
      by (auto simp: create_variables_mem)
    then obtain subj' where s': "subject_indices sch subj' = Some s'" by blast
    then have sid': "subject_ids sch ! s' = subj'"
      using index_dict_Some [of "subject_ids sch" subj' s'] by (simp add: subject_indices_def)
    have "class_ids sch ! c' = class_ids sch ! c \<longleftrightarrow> c' = c"
      using dist c c' len by (simp add: nth_eq_iff_index_eq)
    moreover have "subject_ids sch ! s' = subj \<longleftrightarrow> s' = s"
    proof
      assume "subject_ids sch ! s' = subj"
      with sid' have "subj' = subj" by (rule trans [OF sym])
      with s' idx show "s' = s" by (metis option.inject)
    next
      assume "s' = s"
      then show "subject_ids sch ! s' = subj" using sid by (simp only:)
    qed
    ultimately show ?thesis by simp
  qed
  then have key: "(class_ids sch ! fst k = class_ids sch ! c \<and>
                   subject_ids sch ! fst (snd k) = subj) \<longleftrightarrow>
                  (fst k = c \<and> fst (snd k) = s)"
    if "k \<in> set ?vars" for k
    using that by (cases k) auto
  show "set (filter (\<lambda>k. val k = 1 \<and> class_ids sch ! fst k = class_ids sch ! c \<and>
                            subject_ids sch ! fst (snd k) = subj) ?vars) =
             set (filter (\<lambda>k. val k = 1) (pair_keys sch ?vars c s))"
  proof (rule set_eqI)
    fix k
    show "k \<in> set (filter (\<lambda>k. val k = 1 \<and> class_ids sch ! fst k = class_ids sch ! c \<and>
                            subject_ids sch ! fst (snd k) = subj) ?vars) \<longleftrightarrow>
          k \<in> set (filter (\<lambda>k. val k = 1) (pair_keys sch ?vars c s))"
    proof (cases "k \<in> set ?vars")
      case True
      from key [OF True] True show ?thesis
        by (auto simp: pair_keys_of_variables [OF rooms])
    next
      case False
      then show ?thesis by (simp add: pair_keys_of_variables [OF rooms])
    qed
  qed
qed

lemma pair_keys_nonempty_iff:
  assumes rooms: "rooms sch \<noteq> []"
    and c: "c < length (classes sch)"
    and req: "subj \<in> set (get_or (requiredSubjects (classes sch ! c)) [])"
    and idx: "subject_indices sch subj = Some s"
  shows "pair_keys sch (create_variables sch) c s \<noteq> [] \<longleftrightarrow>
           valid_teachers sch subj \<noteq> [] \<and> days sch \<noteq> [] \<and> time_slots sch \<noteq> []"
proof
  assume "pair_keys sch (create_variables sch) c s \<noteq> []"
  then obtain k where "k \<in> set (pair_keys sch (create_variables sch) c s)"
    by (metis list.set_intros(1) neq_Nil_conv)
  then obtain t r d ts where k: "(c, s, t, r, d, ts) \<in> set (create_variables sch)"
    unfolding pair_keys_set by auto
  then obtain subj' where s': "subject_indices sch subj' = Some s"
    and t: "t \<in> set (valid_teachers sch subj')"
    and d: "d < length (days sch)" "ts < length (time_slots sch)"
    by (auto simp: create_variables_mem)
  have "subj' = subj"
    using s' idx index_dict_Some [of "subject_ids sch" subj' s]
      index_dict_Some [of "subject_ids sch" subj s]
    by (simp add: subject_indices_def)
  then show "valid_teachers sch subj \<noteq> [] \<and> days sch \<noteq> [] \<and> time_slots sch \<noteq> []"
    using t d by auto
next
  assume a: "valid_teachers sch subj \<noteq> [] \<and> days sch \<noteq> [] \<and> time_slots sch \<noteq> []"
  then obtain t where t: "t \<in> set (valid_teachers sch subj)"
    by (metis list.set_intros(1) neq_Nil_conv)
  have "(c, s, t, 0, 0, 0) \<in> set (create_variables sch)"
    unfolding create_variables_mem using a t c req idx rooms
    by (intro conjI bexI [of _ subj]) simp_all
  then have "(c, s, t, 0, 0, 0) \<in> set (pair_keys sch (create_variables sch) c s)"
    unfolding pair_keys_of_variables [OF rooms] by simp
  then show "pair_keys sch (create_variables sch) c s \<noteq> []" by auto
qed

lemma build_model_fields:
  assumes "build_model sch = Inr m"
  shows "assignment_vars m = create_variables sch"
    and "set (add_teacher_consistency_hours sch (create_variables sch)) \<subseteq> set (constraints m)"
proof -
  from assms obtain break_cs free_cs where
    m: "m = \<lparr>assignment_vars = create_variables sch,
             constraints = add_subject_hours_constraint sch (create_variables sch) @
                           add_teacher_consistency_hours sch (create_variables sch) @
                           break_cs @ free_cs\<rparr>"
    by (auto simp: build_model_def Let_def bind_e_def split: sum.splits)
  show "assignment_vars m = create_variables sch" by (simp add: m)
  show "set (add_teacher_consistency_hours sch (create_variables sch)) \<subseteq> set (constraints m)"
    by (auto simp: m)
qed

lemma extract_solution_entries:
  assumes "extract_solution sch env m st val = Inr schedule"
    and "st = OPTIMAL \<or> st = FEASIBLE"
  shows "extract_entries sch env val (assignment_vars m) [] = Inr (entries schedule)"
  using assms by (auto simp: extract_solution_def bind_e_def split: sum.splits)

text \<open>
  Claim C1 says that for every input accepted by the validator, when the solver
  returns \<open>OPTIMAL\<close> or \<open>FEASIBLE\<close>, the returned schedule has exactly
  \<^verbatim>\<open>hoursPerWeek\<close> entries for every class and required subject. The validator does not
  ask that a required subject has a teacher, nor that there are working days and time
  slots; for such a pair no decision variable exists and no constraint is added. As
  amended: let the validator accept the input, let the constructor and the model
  builder return, let the class identifiers be distinct, let the solver answer
  \<open>OPTIMAL\<close> or \<open>FEASIBLE\<close> with an assignment that satisfies the model, and let the
  extractor return a schedule. Then that schedule is the result of
  \<^verbatim>\<open>generate_schedule\<close>, every required subject of every class is in the catalogue, and
  the number of entries with the class's identifier and the subject's identifier is
  \<^verbatim>\<open>hoursPerWeek\<close> of the subject when some teacher teaches the subject and there is at
  least one working day and one time slot, and zero otherwise.
\<close>

theorem generated_schedule_meets_weekly_hours:
  assumes valid: "feasible (validate_constraints data)"
    and init: "scheduler_init data = Some (Inr sch)"
    and dist: "distinct (class_ids sch)"
    and model: "build_model sch = Inr m"
    and solved: "solver env m = (st, val)"
    and st: "st = OPTIMAL \<or> st = FEASIBLE"
    and sat: "satisfies m val"
    and extracted: "extract_solution sch env m st val = Inr schedule"
    and c: "c < length (classes sch)"
    and req: "subj \<in> set (get_or (requiredSubjects (classes sch ! c)) [])"
  shows "generate_schedule data env = Some schedule \<and>
         (\<exists>s. subject_indices sch subj = Some s \<and>
              int (length (filter (\<lambda>e. classId e = Some (class_ids sch ! c) \<and> subjectId e = subj)
                             (entries schedule))) =
              (if valid_teachers sch subj \<noteq> [] \<and> days sch \<noteq> [] \<and> time_slots sch \<noteq> []
               then get_or (hoursPerWeek (subjects sch ! s)) 0 else 0))"
proof
  show "generate_schedule data env = Some schedule"
    using init model solved st extracted
    by (simp add: generate_schedule_def run_scheduler_def bind_e_def)
next
  let ?vars = "create_variables sch"
  from valid have issues: "validate_issues data = []"
    by (simp add: validate_constraints_def)
  have rooms: "rooms sch \<noteq> []"
    using validated_rooms_and_subjects(1) [OF issues] scheduler_init_fields(4) [OF init]
    by simp
  have "\<exists>x \<in> set (subjects sch). s_id x = Some subj"
    using validated_rooms_and_subjects(2) [OF issues, of c subj] c req
      scheduler_init_fields(2,3) [OF init]
    by simp
  then have "Some subj \<in> set (map s_id (subjects sch))" by force
  then have "subj \<in> set (subject_ids sch)"
    unfolding scheduler_init_fields(6) [OF init] by auto
  then obtain s where idx: "subject_indices sch subj = Some s"
    using index_dict_defined [of subj "subject_ids sch"] by (auto simp: subject_indices_def)
  let ?keys = "pair_keys sch ?vars c s"
  have vars: "assignment_vars m = ?vars"
    by (rule build_model_fields(1) [OF model])
  have "extract_entries sch env val ?vars [] = Inr (entries schedule)"
    using extract_solution_entries [OF extracted st] vars by simp
  from extract_entries_count [OF this, of "class_ids sch ! c" subj]
  have "length (filter (\<lambda>e. classId e = Some (class_ids sch ! c) \<and> subjectId e = subj)
                  (entries schedule)) =
        length (filter (\<lambda>k. val k = 1 \<and> class_ids sch ! fst k = class_ids sch ! c \<and>
                             subject_ids sch ! fst (snd k) = subj) ?vars)"
    by simp
  also have "\<dots> = length (filter (\<lambda>k. val k = 1) ?keys)"
    by (rule count_of_pair [OF init rooms dist c idx])
  finally have count: "length (filter (\<lambda>e. classId e = Some (class_ids sch ! c) \<and> subjectId e = subj)
                  (entries schedule)) = length (filter (\<lambda>k. val k = 1) ?keys)" .
  have cond: "?keys \<noteq> [] \<longleftrightarrow>
              valid_teachers sch subj \<noteq> [] \<and> days sch \<noteq> [] \<and> time_slots sch \<noteq> []"
    by (rule pair_keys_nonempty_iff [OF rooms c req idx])
  have "int (length (filter (\<lambda>k. val k = 1) ?keys)) =
          (if valid_teachers sch subj \<noteq> [] \<and> days sch \<noteq> [] \<and> time_slots sch \<noteq> []
           then get_or (hoursPerWeek (subjects sch ! s)) 0 else 0)"
  proof (cases "?keys = []")
    case True
    then show ?thesis using cond by auto
  next
    case False
    with cond have vt: "valid_teachers sch subj \<noteq> []" and rest: "days sch \<noteq> []" "time_slots sch \<noteq> []"
      by simp_all
    have "SumEq ?keys (get_or (hoursPerWeek (subjects sch ! s)) 0)
            \<in> set (add_teacher_consistency_hours sch ?vars)"
      by (rule consistency_constraint_in_model [OF c req idx vt False])
    then have "SumEq ?keys (get_or (hoursPerWeek (subjects sch ! s)) 0) \<in> set (constraints m)"
      using build_model_fields(2) [OF model] by blast
    then have "holds val (SumEq ?keys (get_or (hoursPerWeek (subjects sch ! s)) 0))"
      using sat unfolding satisfies_def list_all_iff by blast
    then have sum: "sum_list (map val ?keys) = get_or (hoursPerWeek (subjects sch ! s)) 0"
      by simp
    have "set ?keys \<subseteq> set ?vars"
      by (auto simp: pair_keys_set)
    then have "list_all (\<lambda>k. val k = 0 \<or> val k = 1) ?keys"
      using sat vars by (auto simp: satisfies_def list_all_iff)
    from sum_of_booleans [OF this] sum show ?thesis
      using vt rest by simp
  qed
  with count idx show "\<exists>s. subject_indices sch subj = Some s \<and>
              int (length (filter (\<lambda>e. classId e = Some (class_ids sch ! c) \<and> subjectId e = subj)
                             (entries schedule))) =
              (if valid_teachers sch subj \<noteq> [] \<and> days sch \<noteq> [] \<and> time_slots sch \<noteq> []
               then get_or (hoursPerWeek (subjects sch ! s)) 0 else 0)"
    by simp
qed

text \<open>
  The witness is the small school: one class, two hours of mathematics, one lesson
  on Monday and one on Tuesday.
\<close>

theorem generated_schedule_meets_weekly_hours_witness:
  "feasible (validate_constraints small_data) \<and>
   scheduler_init small_data = Some (Inr small_scheduler) \<and>
   distinct (class_ids small_scheduler) \<and>
   build_model small_scheduler = Inr small_model \<and>
   solver (solving_env [(0, 0, 0, 0, 0, 0), (0, 0, 0, 0, 1, 1)]) small_model =
     (OPTIMAL, \<lambda>k. if k \<in> set [(0, 0, 0, 0, 0, 0), (0, 0, 0, 0, 1, 1)] then 1 else 0) \<and>
   satisfies small_model
     (\<lambda>k. if k \<in> set [(0, 0, 0, 0, 0, 0), (0, 0, 0, 0, 1, 1)] then 1 else 0) \<and>
   (\<exists>schedule.
      extract_solution small_scheduler (solving_env [(0, 0, 0, 0, 0, 0), (0, 0, 0, 0, 1, 1)])
        small_model OPTIMAL
        (\<lambda>k. if k \<in> set [(0, 0, 0, 0, 0, 0), (0, 0, 0, 0, 1, 1)] then 1 else 0) =
        Inr schedule \<and>
      generate_schedule small_data (solving_env [(0, 0, 0, 0, 0, 0), (0, 0, 0, 0, 1, 1)]) =
        Some schedule \<and>
      int (length (filter (\<lambda>e. classId e = Some ''class-1'' \<and> subjectId e = ''math'')
                     (entries schedule))) = 2)"
proof -
  let ?ones = "[(0, 0, 0, 0, 0, 0), (0, 0, 0, 0, 1, 1)] :: var_key list"
  let ?val = "\<lambda>k. if k \<in> set ?ones then 1 else 0 :: int"
  let ?schedule =
    "\<lparr>scheduleId = ''generated-schedule-1b9d6bcd'',
      entries =
        [\<lparr>e_id = ''entry-0'', e_day = ''MONDAY'', e_startTime = ''08:00'',
          e_endTime = ''09:00'', classId = Some ''class-1'', subjectId = ''math'',
          teacherId = Some ''teacher-1'', roomId = Some ''class-1'',
          roomName = Some ''Room Class 1''\<rparr>,
         \<lparr>e_id = ''entry-1'', e_day = ''TUESDAY'', e_startTime = ''09:00'',
          e_endTime = ''10:00'', classId = Some ''class-1'', subjectId = ''math'',
          teacherId = Some ''teacher-1'', roomId = Some ''class-1'',
          roomName = Some ''Room Class 1''\<rparr>]\<rparr>"
  have valid: "feasible (validate_constraints small_data)" by code_simp
  have dist: "distinct (class_ids small_scheduler)" by code_simp
  have solved: "solver (solving_env ?ones) small_model = (OPTIMAL, ?val)"
    by (simp add: solving_env_def)
  have sat: "satisfies small_model ?val" by code_simp
  have extracted: "extract_solution small_scheduler (solving_env ?ones) small_model OPTIMAL ?val =
                     Inr ?schedule"
    by code_simp
  have c: "0 < length (classes small_scheduler)" by code_simp
  have req: "''math'' \<in> set (get_or (requiredSubjects (classes small_scheduler ! 0)) [])"
    by code_simp
  have cid: "class_ids small_scheduler ! 0 = ''class-1''" by code_simp
  have idx: "subject_indices small_scheduler ''math'' = Some 0" by code_simp
  have nonempty: "valid_teachers small_scheduler ''math'' \<noteq> [] \<and> days small_scheduler \<noteq> [] \<and>
                  time_slots small_scheduler \<noteq> []"
    by code_simp
  have hours: "get_or (hoursPerWeek (subjects small_scheduler ! 0)) 0 = 2" by code_simp
  from generated_schedule_meets_weekly_hours
         [OF valid small_data_init dist small_scheduler_model solved _ sat extracted c req]
  have gen: "generate_schedule small_data (solving_env ?ones) = Some ?schedule"
    and "\<exists>s. subject_indices small_scheduler ''math'' = Some s \<and>
           int (length (filter (\<lambda>e. classId e = Some (class_ids small_scheduler ! 0) \<and>
                                    subjectId e = ''math'') (entries ?schedule))) =
           (if valid_teachers small_scheduler ''math'' \<noteq> [] \<and> days small_scheduler \<noteq> [] \<and>
               time_slots small_scheduler \<noteq> []
            then get_or (hoursPerWeek (subjects small_scheduler ! s)) 0 else 0)"
    by simp_all
  then obtain s where s: "subject_indices small_scheduler ''math'' = Some s"
    and n: "int (length (filter (\<lambda>e. classId e = Some (class_ids small_scheduler ! 0) \<and>
                                    subjectId e = ''math'') (entries ?schedule))) =
           (if valid_teachers small_scheduler ''math'' \<noteq> [] \<and> days small_scheduler \<noteq> [] \<and>
               time_slots small_scheduler \<noteq> []
            then get_or (hoursPerWeek (subjects small_scheduler ! s)) 0 else 0)"
    by blast
  from s idx have "s = 0" by simp
  with n nonempty hours cid
  have "int (length (filter (\<lambda>e. classId e = Some ''class-1'' \<and> subjectId e = ''math'')
                       (entries ?schedule))) = 2"
    by simp
  with valid small_data_init dist small_scheduler_model solved sat extracted gen
  show ?thesis by blast
qed

text \<open>
  The claim as stated fails when a required subject has no teacher. The class
  requires mathematics and art, two hours a week each; art is in the catalogue, so the
  validator accepts the input, but no teacher teaches it. The model has no variable
  for art, the solver's answer satisfies it, and the generated schedule has no entry
  for art where the claim asks for two.
\<close>

theorem untaught_subject_has_no_entries:
  "feasible (validate_constraints untaught_data) \<and>
   scheduler_init untaught_data = Some (Inr untaught_scheduler) \<and>
   distinct (class_ids untaught_scheduler) \<and>
   build_model untaught_scheduler = Inr small_model \<and>
   fst (solver (solving_env [(0, 0, 0, 0, 0, 0), (0, 0, 0, 0, 1, 1)]) small_model) = OPTIMAL \<and>
   satisfies small_model
     (snd (solver (solving_env [(0, 0, 0, 0, 0, 0), (0, 0, 0, 0, 1, 1)]) small_model)) \<and>
   ''art'' \<in> set (get_or (requiredSubjects (classes untaught_scheduler ! 0)) []) \<and>
   class_ids untaught_scheduler ! 0 = ''class-1'' \<and>
   subject_indices untaught_scheduler ''art'' = Some 1 \<and>
   hoursPerWeek (subjects untaught_scheduler ! 1) = Some 2 \<and>
   valid_teachers untaught_scheduler ''art'' = [] \<and>
   generate_schedule untaught_data (solving_env [(0, 0, 0, 0, 0, 0), (0, 0, 0, 0, 1, 1)]) =
     Some \<lparr>scheduleId = ''generated-schedule-1b9d6bcd'',
           entries =
             [\<lparr>e_id = ''entry-0'', e_day = ''MONDAY'', e_startTime = ''08:00'',
               e_endTime = ''09:00'', classId = Some ''class-1'', subjectId = ''math'',
               teacherId = Some ''teacher-1'', roomId = Some ''class-1'',
               roomName = Some ''Room Class 1''\<rparr>,
              \<lparr>e_id = ''entry-1'', e_day = ''TUESDAY'', e_startTime = ''09:00'',
               e_endTime = ''10:00'', classId = Some ''class-1'', subjectId = ''math'',
               teacherId = Some ''teacher-1'', roomId = Some ''class-1'',
               roomName = Some ''Room Class 1''\<rparr>]\<rparr> \<and>
   length (filter (\<lambda>e. classId e = Some ''class-1'' \<and> subjectId e = ''art'')
     [\<lparr>e_id = ''entry-0'', e_day = ''MONDAY'', e_startTime = ''08:00'',
       e_endTime = ''09:00'', classId = Some ''class-1'', subjectId = ''math'',
       teacherId = Some ''teacher-1'', roomId = Some ''class-1'',
       roomName = Some ''Room Class 1''\<rparr>,
      \<lparr>e_id = ''entry-1'', e_day = ''TUESDAY'', e_startTime = ''09:00'',
       e_endTime = ''10:00'', classId = Some ''class-1'', subjectId = ''math'',
       teacherId = Some ''teacher-1'', roomId = Some ''class-1'',
       roomName = Some ''Room Class 1''\<rparr>]) = 0"
  by code_simp

end
